theory Spec2Isabelle
  imports Main
begin

section \<open>Formatting and string substitution\<close>

text \<open>
  The backup runner builds every name, path and comment with \<^verbatim>\<open>fmt.Sprintf\<close> and
  \<^verbatim>\<open>strings.ReplaceAll\<close>. Go strings are byte sequences, modelled as \<^typ>\<open>string\<close>.
  The verb \<^verbatim>\<open>%v\<close> on an integer prints its decimal digits, with a leading minus
  sign for a negative value.
\<close>

definition digit_char :: "nat \<Rightarrow> char" where
  "digit_char d = (''0123456789'' ! d)"

fun digits :: "nat \<Rightarrow> string" where
  "digits n = (if n < 10 then [digit_char n] else digits (n div 10) @ [digit_char (n mod 10)])"

declare digits.simps [simp del]

definition fmt_v_int :: "int \<Rightarrow> string" where
  "fmt_v_int i = (if i < 0 then CHR ''-'' # digits (nat (- i)) else digits (nat i))"

text \<open>
  \<^verbatim>\<open>strings.ReplaceAll(s, old, new)\<close> for a non-empty \<open>old\<close>: the occurrences of
  \<open>old\<close> are found from the left and do not overlap; each is replaced by \<open>new\<close>,
  every other byte is copied. (The runner only calls it with the placeholder
  \<^verbatim>\<open>{{TIME}}\<close>; Go's special case for an empty \<open>old\<close> is not modelled, the string is
  returned as it is.)
\<close>

function ReplaceAll :: "string \<Rightarrow> string \<Rightarrow> string \<Rightarrow> string" where
  "ReplaceAll s old new =
     (if old = [] \<or> s = [] then s
      else if take (length old) s = old then new @ ReplaceAll (drop (length old) s) old new
      else hd s # ReplaceAll (tl s) old new)"
  by pat_completeness auto
termination
  by (relation "measure (\<lambda>(s, old, new). length s)") (auto simp: neq_Nil_conv)

declare ReplaceAll.simps [simp del]

text \<open>\<open>occurs old s\<close>: the string \<open>old\<close> occurs somewhere in \<open>s\<close>.\<close>

fun occurs :: "string \<Rightarrow> string \<Rightarrow> bool" where
  "occurs old [] = (old = [])"
| "occurs old (c # s) = (take (length old) (c # s) = old \<or> occurs old s)"

text \<open>\<open>join sep segs\<close>: the segments with \<open>sep\<close> between each two neighbours.\<close>

fun join :: "string \<Rightarrow> string list \<Rightarrow> string" where
  "join sep [] = []"
| "join sep [seg] = seg"
| "join sep (seg # seg' # segs) = seg @ sep @ join sep (seg' # segs)"


section \<open>Time\<close>

text \<open>
  A \<^verbatim>\<open>time.Time\<close> is an instant, here in nanoseconds since the Unix epoch, together
  with the offset east of UTC (in seconds) of the location it is presented in.
  \<^verbatim>\<open>UTC()\<close> changes the location only. \<^verbatim>\<open>Truncate(d)\<close> rounds the instant down to a
  multiple of \<open>d\<close> nanoseconds since Go's zero time (January 1 of year 1, UTC), which
  lies \<open>unixToInternal\<close> seconds before the Unix epoch; it does not look at the
  location. \<^verbatim>\<open>Hour()\<close> and \<^verbatim>\<open>Weekday()\<close> read the presentation of the instant in
  its location; January 1, 1970 was a Thursday, day 4 of a week that starts on Sunday.
\<close>

record Time =
  unix_nano :: int
  zone_offset :: int

definition unixToInternal :: int where
  "unixToInternal = 62135596800"

definition time_Hour :: int where
  "time_Hour = 3600 * 1000000000"

definition Time_UTC :: "Time \<Rightarrow> Time" where
  "Time_UTC t = t\<lparr>zone_offset := 0\<rparr>"

definition Time_Unix :: "Time \<Rightarrow> int" where
  "Time_Unix t = unix_nano t div 1000000000"

definition Time_Truncate :: "Time \<Rightarrow> int \<Rightarrow> Time" where
  "Time_Truncate t d =
     (if d \<le> 0 then t
      else t\<lparr>unix_nano := unix_nano t - (unix_nano t + unixToInternal * 1000000000) mod d\<rparr>)"

definition Time_Hour :: "Time \<Rightarrow> int" where
  "Time_Hour t = ((Time_Unix t + zone_offset t) mod 86400) div 3600"

definition Time_Weekday :: "Time \<Rightarrow> int" where
  "Time_Weekday t = ((Time_Unix t + zone_offset t) div 86400 + 4) mod 7"

text \<open>The index of the UTC hour an instant lies in: the hours are counted from the epoch.\<close>

definition utc_hour_index :: "Time \<Rightarrow> int" where
  "utc_hour_index t = Time_Unix t div 3600"


section \<open>Errors\<close>

text \<open>
  Package \<^verbatim>\<open>bytebase\<close> is outside the sources at hand; the store code builds
  \<^verbatim>\<open>&bytebase.Error{Code: bytebase.ENOTFOUND, Message: ...}\<close> and the runner tests
  \<^verbatim>\<open>bytebase.ErrorCode(err) == bytebase.ECONFLICT\<close>.
\<close>

datatype error_code = ECONFLICT | ENOTFOUND | EINTERNAL | EINVALID

text \<open>
  A Go \<^verbatim>\<open>error\<close> value: a \<^verbatim>\<open>*bytebase.Error\<close> with its code and message, or any
  other error, of which only the text is kept.
\<close>

datatype error = Error (Code: error_code) (Message: string) | OtherError string

text \<open>
  Modelled from the spec: \<^verbatim>\<open>bytebase.ErrorCode\<close>, declared outside the sources at
  hand. The store surfaces a distinguished "already exists" failure (the code
  \<open>ECONFLICT\<close>), a lookup miss (\<open>ENOTFOUND\<close>), and everything else is an internal
  failure.
\<close>

fun ErrorCode :: "error \<Rightarrow> error_code" where
  "ErrorCode (Error c m) = c"
| "ErrorCode (OtherError m) = EINTERNAL"


section \<open>The entities of package api that the runner touches\<close>

text \<open>
  Package \<^verbatim>\<open>api\<close> is outside the sources at hand. Each record has the fields the
  runner reads or writes. A \<open>Database\<close> is the composed view: it carries its
  \<open>Instance\<close>, which carries its \<open>Environment\<close> (in Go these are pointers that
  \<^verbatim>\<open>ComposeDatabaseByFind\<close> fills in; a nil pointer there would make
  \<^verbatim>\<open>scheduleBackupTask\<close> panic and is not modelled).
\<close>

record Environment =
  Name :: string

record Instance =
  EnvironmentId :: int
  Environment :: Environment

record Database =
  ID :: int
  Name :: string
  InstanceId :: int
  Instance :: Instance

record BackupSetting =
  ID :: int
  DatabaseId :: int
  Hour :: int
  DayOfWeek :: int
  PathTemplate :: string
  Database :: Database

record BackupSettingsMatch =
  Hour :: int
  DayOfWeek :: int

record DatabaseFind =
  ID :: "int option"

text \<open>
  Modelled from the spec: the status and type tags of package \<^verbatim>\<open>api\<close>. A Backup is
  pending-create, done or failed, and automatic or manual; a Task goes from pending to
  running to done or failed; the runner creates tasks of type database-backup.
\<close>

datatype BackupStatus = BackupStatusPendingCreate | BackupStatusDone | BackupStatusFailed
datatype BackupType = BackupTypeAutomatic | BackupTypeManual
datatype BackupStorageBackend = BackupStorageBackendLocal
datatype TaskStatus = TaskPending | TaskRunning | TaskDone | TaskFailed
datatype TaskType = TaskGeneral | TaskDatabaseBackup

record BackupCreate =
  CreatorId :: int
  DatabaseId :: int
  Name :: string
  Status :: BackupStatus
  Type :: BackupType
  StorageBackend :: BackupStorageBackend
  Path :: string
  Comment :: string

record Backup =
  ID :: int

record TaskDatabaseBackupPayload =
  BackupID :: int

record PipelineCreate =
  Name :: string
  CreatorId :: int

record Pipeline =
  ID :: int

record StageCreate =
  Name :: string
  EnvironmentId :: int
  PipelineId :: int
  CreatorId :: int

record Stage =
  ID :: int

record TaskCreate =
  Name :: string
  PipelineId :: int
  StageId :: int
  InstanceId :: int
  DatabaseId :: "int option"
  Status :: TaskStatus
  Type :: TaskType
  Payload :: string
  CreatorId :: int

record Task =
  ID :: int


section \<open>The backup runner and its collaborators\<close>

text \<open>
  A call of a collaborator returns or panics.
\<close>

datatype 'a outcome = Returns 'a | Panics string

text \<open>
  The runner with everything it calls. The services of the server, the clock and
  \<^verbatim>\<open>time.Sleep\<close> act on the world \<open>'w\<close> (the store, the clock, whatever the other
  goroutines and processes do to them): each takes the world and returns the new one.
  A Go function returning \<^verbatim>\<open>(value, error)\<close> whose value is only read when the error
  is nil returns a sum; \<^verbatim>\<open>FindBackupSettingsMatch\<close> returns the pair, since \<^verbatim>\<open>Run\<close>
  ranges over the list whatever the error is. The two calls made under the
  \<^verbatim>\<open>recover\<close> of \<^verbatim>\<open>Run\<close> may panic. \<^verbatim>\<open>json_Marshal\<close> is \<^verbatim>\<open>json.Marshal\<close> at the
  payload type, and \<open>SYSTEM_BOT_ID\<close> the constant of package \<^verbatim>\<open>api\<close>.
\<close>

record 'w BackupRunner =
  backupRunnerInterval :: int
  SYSTEM_BOT_ID :: int
  time_Now :: "'w \<Rightarrow> Time \<times> 'w"
  time_Sleep :: "int \<Rightarrow> 'w \<Rightarrow> 'w"
  FindBackupSettingsMatch ::
    "BackupSettingsMatch \<Rightarrow> 'w \<Rightarrow> (BackupSetting list \<times> error option) outcome \<times> 'w"
  ComposeDatabaseByFind :: "DatabaseFind \<Rightarrow> 'w \<Rightarrow> (error + Database) outcome \<times> 'w"
  CreateBackup :: "BackupCreate \<Rightarrow> 'w \<Rightarrow> (error + Backup) \<times> 'w"
  json_Marshal :: "TaskDatabaseBackupPayload \<Rightarrow> error + string"
  CreatePipeline :: "PipelineCreate \<Rightarrow> 'w \<Rightarrow> (error + Pipeline) \<times> 'w"
  CreateStage :: "StageCreate \<Rightarrow> 'w \<Rightarrow> (error + Stage) \<times> 'w"
  CreateTask :: "TaskCreate \<Rightarrow> 'w \<Rightarrow> (error + Task) \<times> 'w"


subsection \<open>scheduleBackupTask\<close>

text \<open>The local variables \<open>key\<close> and \<open>path\<close> and the struct \<open>backupCreate\<close>.\<close>

definition sched_key :: "BackupSetting \<Rightarrow> string \<Rightarrow> string" where
  "sched_key backupSetting uniqueKey =
     ''auto-backup-'' @ uniqueKey @ ''-'' @ fmt_v_int (BackupSetting.DatabaseId backupSetting)"

definition sched_path :: "BackupSetting \<Rightarrow> int \<Rightarrow> string" where
  "sched_path backupSetting epoch =
     (if PathTemplate backupSetting \<noteq> ''''
      then ReplaceAll (PathTemplate backupSetting) ''{{TIME}}'' (fmt_v_int epoch)
      else Environment.Name (Environment (Instance (Database backupSetting))) @ ''-''
           @ Database.Name (Database backupSetting) @ ''-'' @ fmt_v_int epoch @ ''.sql'')"

definition sched_backupCreate ::
  "'w BackupRunner \<Rightarrow> BackupSetting \<Rightarrow> string \<Rightarrow> int \<Rightarrow> BackupCreate" where
  "sched_backupCreate s backupSetting uniqueKey epoch =
     \<lparr> BackupCreate.CreatorId = SYSTEM_BOT_ID s,
       BackupCreate.DatabaseId = BackupSetting.DatabaseId backupSetting,
       BackupCreate.Name = sched_key backupSetting uniqueKey,
       BackupCreate.Status = BackupStatusPendingCreate,
       BackupCreate.Type = BackupTypeAutomatic,
       StorageBackend = BackupStorageBackendLocal,
       Path = sched_path backupSetting epoch,
       Comment = ''Automatic backup for database '' @ Database.Name (Database backupSetting)
                 @ '' at '' @ fmt_v_int epoch \<rparr>"

text \<open>
  The destination path as the spec words it, for comparison with \<open>sched_path\<close>: the
  placeholder is replaced with the epoch seconds of the bucket of the tick.
\<close>

definition spec_path :: "BackupSetting \<Rightarrow> Time \<Rightarrow> string" where
  "spec_path backupSetting now =
     (let bucketEpoch = Time_Unix (Time_Truncate (Time_UTC now) time_Hour)
      in if PathTemplate backupSetting \<noteq> []
         then ReplaceAll (PathTemplate backupSetting) ''{{TIME}}'' (fmt_v_int bucketEpoch)
         else Environment.Name (Environment (Instance (Database backupSetting))) @ ''-''
              @ Database.Name (Database backupSetting) @ ''-'' @ fmt_v_int bucketEpoch @ ''.sql'')"

text \<open>The error values that \<^verbatim>\<open>scheduleBackupTask\<close> builds with \<^verbatim>\<open>fmt.Errorf\<close>.\<close>

datatype sched_error =
    FailedToCreateBackup error
  | FailedToCreateTaskPayload error
  | FailedToCreatePipeline error
  | FailedToCreateStage error
  | FailedToCreateTask error

definition sched_pipelineCreate :: "string \<Rightarrow> BackupCreate \<Rightarrow> PipelineCreate" where
  "sched_pipelineCreate key backupCreate =
     \<lparr> PipelineCreate.Name = key, PipelineCreate.CreatorId = BackupCreate.CreatorId backupCreate \<rparr>"

definition sched_stageCreate ::
  "string \<Rightarrow> BackupSetting \<Rightarrow> BackupCreate \<Rightarrow> Pipeline \<Rightarrow> StageCreate" where
  "sched_stageCreate key backupSetting backupCreate createdPipeline =
     \<lparr> StageCreate.Name = key,
       StageCreate.EnvironmentId = Instance.EnvironmentId (Instance (Database backupSetting)),
       StageCreate.PipelineId = Pipeline.ID createdPipeline,
       StageCreate.CreatorId = BackupCreate.CreatorId backupCreate \<rparr>"

definition sched_taskCreate ::
  "string \<Rightarrow> BackupSetting \<Rightarrow> BackupCreate \<Rightarrow> Pipeline \<Rightarrow> Stage \<Rightarrow> string \<Rightarrow> TaskCreate" where
  "sched_taskCreate key backupSetting backupCreate createdPipeline createdStage bytes =
     \<lparr> TaskCreate.Name = key,
       TaskCreate.PipelineId = Pipeline.ID createdPipeline,
       StageId = Stage.ID createdStage,
       TaskCreate.InstanceId = Database.InstanceId (Database backupSetting),
       TaskCreate.DatabaseId = Some (Database.ID (Database backupSetting)),
       TaskCreate.Status = TaskPending,
       TaskCreate.Type = TaskDatabaseBackup,
       Payload = bytes,
       TaskCreate.CreatorId = BackupCreate.CreatorId backupCreate \<rparr>"

definition scheduleBackupTask ::
  "'w BackupRunner \<Rightarrow> BackupSetting \<Rightarrow> string \<Rightarrow> int \<Rightarrow> 'w \<Rightarrow> sched_error option \<times> 'w" where
  "scheduleBackupTask s backupSetting uniqueKey epoch w =
     (let key = sched_key backupSetting uniqueKey;
          backupCreate = sched_backupCreate s backupSetting uniqueKey epoch
      in case CreateBackup s backupCreate w of
           (Inl err, w1) \<Rightarrow>
             if ErrorCode err = ECONFLICT then (None, w1)
             else (Some (FailedToCreateBackup err), w1)
         | (Inr backup, w1) \<Rightarrow>
            (case json_Marshal s \<lparr> BackupID = Backup.ID backup \<rparr> of
               Inl err \<Rightarrow> (Some (FailedToCreateTaskPayload err), w1)
             | Inr bytes \<Rightarrow>
                (case CreatePipeline s (sched_pipelineCreate key backupCreate) w1 of
                   (Inl err, w2) \<Rightarrow> (Some (FailedToCreatePipeline err), w2)
                 | (Inr createdPipeline, w2) \<Rightarrow>
                    (case CreateStage s
                            (sched_stageCreate key backupSetting backupCreate createdPipeline) w2 of
                       (Inl err, w3) \<Rightarrow> (Some (FailedToCreateStage err), w3)
                     | (Inr createdStage, w3) \<Rightarrow>
                        (case CreateTask s
                                (sched_taskCreate key backupSetting backupCreate
                                   createdPipeline createdStage bytes) w3 of
                           (Inl err, w4) \<Rightarrow> (Some (FailedToCreateTask err), w4)
                         | (Inr createdTask, w4) \<Rightarrow> (None, w4))))))"


subsection \<open>Run\<close>

text \<open>
  What one pass of the loop of \<^verbatim>\<open>Run\<close> derives from its two readings of the clock:
  \<open>t\<close>, the match, \<open>uniqueKey\<close> and \<open>epoch\<close>.
\<close>

definition run_t :: "Time \<Rightarrow> Time" where
  "run_t now = Time_Truncate (Time_UTC now) time_Hour"

definition run_match :: "Time \<Rightarrow> BackupSettingsMatch" where
  "run_match t = \<lparr> BackupSettingsMatch.Hour = Time_Hour t, DayOfWeek = Time_Weekday t \<rparr>"

definition run_uniqueKey :: "Time \<Rightarrow> string" where
  "run_uniqueKey t = fmt_v_int (Time_Unix t)"

definition run_epoch :: "Time \<Rightarrow> int" where
  "run_epoch now = Time_Unix (Time_UTC now)"

text \<open>
  The lines the runner logs, and a launched goroutine: the arguments of the
  \<^verbatim>\<open>go func(backupSetting, uniqueKey, epoch)\<close> statement.
\<close>

datatype log_entry =
    PanicRecover string
  | FailedToRetrieveBackupSettingsMatch error
  | FailedToGetDatabase int int error
  | FailedToCreateAutomaticBackup int int sched_error

type_synonym launch = "BackupSetting \<times> string \<times> int"

record range_result =
  panicked :: "string option"
  logged :: "log_entry list"
  launched :: "launch list"

text \<open>
  The \<^verbatim>\<open>for _, backupSetting := range list\<close> loop. A failed
  \<^verbatim>\<open>ComposeDatabaseByFind\<close> logs and continues with the next setting; a panic leaves
  the loop (the goroutines launched before it stay launched).
\<close>

fun range_list ::
  "'w BackupRunner \<Rightarrow> string \<Rightarrow> int \<Rightarrow> BackupSetting list \<Rightarrow> 'w \<Rightarrow> range_result \<times> 'w" where
  "range_list s uniqueKey epoch [] w = (\<lparr> panicked = None, logged = [], launched = [] \<rparr>, w)"
| "range_list s uniqueKey epoch (backupSetting # rest) w =
     (case ComposeDatabaseByFind s
             \<lparr> DatabaseFind.ID = Some (BackupSetting.DatabaseId backupSetting) \<rparr> w of
        (Panics r, w1) \<Rightarrow> (\<lparr> panicked = Some r, logged = [], launched = [] \<rparr>, w1)
      | (Returns (Inl err), w1) \<Rightarrow>
          (case range_list s uniqueKey epoch rest w1 of
             (res, w2) \<Rightarrow>
               (res\<lparr> logged := FailedToGetDatabase (BackupSetting.ID backupSetting)
                                   (BackupSetting.DatabaseId backupSetting) err # logged res \<rparr>, w2))
      | (Returns (Inr database), w1) \<Rightarrow>
          (case range_list s uniqueKey epoch rest w1 of
             (res, w2) \<Rightarrow>
               (res\<lparr> launched := (backupSetting\<lparr> Database := database \<rparr>, uniqueKey, epoch)
                                     # launched res \<rparr>, w2)))"

text \<open>
  With a resolver that leaves the world alone, what the range loop launches and logs for
  one setting.
\<close>

definition launch_of ::
  "(DatabaseFind \<Rightarrow> error + Database) \<Rightarrow> string \<Rightarrow> int \<Rightarrow> BackupSetting \<Rightarrow> launch option" where
  "launch_of resolve uniqueKey epoch backupSetting =
     (case resolve \<lparr> DatabaseFind.ID = Some (BackupSetting.DatabaseId backupSetting) \<rparr> of
        Inl err \<Rightarrow> None
      | Inr database \<Rightarrow> Some (backupSetting\<lparr> Database := database \<rparr>, uniqueKey, epoch))"

definition log_of :: "(DatabaseFind \<Rightarrow> error + Database) \<Rightarrow> BackupSetting \<Rightarrow> log_entry option" where
  "log_of resolve backupSetting =
     (case resolve \<lparr> DatabaseFind.ID = Some (BackupSetting.DatabaseId backupSetting) \<rparr> of
        Inl err \<Rightarrow> Some (FailedToGetDatabase (BackupSetting.ID backupSetting)
                         (BackupSetting.DatabaseId backupSetting) err)
      | Inr database \<Rightarrow> None)"

text \<open>
  One pass: the body of the anonymous function with its deferred \<^verbatim>\<open>recover\<close>. It
  yields the lines logged and the goroutines launched.
\<close>

definition Run_tick :: "'w BackupRunner \<Rightarrow> 'w \<Rightarrow> (log_entry list \<times> launch list) \<times> 'w" where
  "Run_tick s w =
     (case time_Now s w of
        (now1, w1) \<Rightarrow>
          (let t = run_t now1;
               match = run_match t;
               uniqueKey = run_uniqueKey t
           in case time_Now s w1 of
                (now2, w2) \<Rightarrow>
                  (let epoch = run_epoch now2
                   in case FindBackupSettingsMatch s match w2 of
                        (Panics r, w3) \<Rightarrow> (([PanicRecover r], []), w3)
                      | (Returns (list, err), w3) \<Rightarrow>
                          (case range_list s uniqueKey epoch list w3 of
                             (res, w4) \<Rightarrow>
                               (((case err of
                                    Some e \<Rightarrow> [FailedToRetrieveBackupSettingsMatch e]
                                  | None \<Rightarrow> [])
                                 @ logged res
                                 @ (case panicked res of
                                      Some r \<Rightarrow> [PanicRecover r]
                                    | None \<Rightarrow> []),
                                 launched res), w4)))))"

text \<open>The body of a launched goroutine: the attempt, and the line logged when it fails.\<close>

definition go_scheduleBackupTask ::
  "'w BackupRunner \<Rightarrow> launch \<Rightarrow> 'w \<Rightarrow> log_entry list \<times> 'w" where
  "go_scheduleBackupTask s l w =
     (case l of
        (backupSetting, uniqueKey, epoch) \<Rightarrow>
          (case scheduleBackupTask s backupSetting uniqueKey epoch w of
             (Some err, w1) \<Rightarrow>
               ([FailedToCreateAutomaticBackup (BackupSetting.ID backupSetting)
                   (BackupSetting.DatabaseId backupSetting) err], w1)
           | (None, w1) \<Rightarrow> ([], w1)))"

text \<open>
  The loop \<^verbatim>\<open>for { ...; time.Sleep(s.backupRunnerInterval) }\<close> never ends. Its first
  \<open>n\<close> passes are observed as a trace: each pass is a tick followed by a sleep. The
  goroutines a tick launches run beside the loop; what they do to the world shows in
  what the collaborators return later.
\<close>

datatype event = Ticked "log_entry list" "launch list" | Slept int

fun Run_loop :: "nat \<Rightarrow> 'w BackupRunner \<Rightarrow> 'w \<Rightarrow> event list \<times> 'w" where
  "Run_loop 0 s w = ([], w)"
| "Run_loop (Suc n) s w =
     (case Run_tick s w of
        ((logs, spawned), w1) \<Rightarrow>
          (case Run_loop n s (time_Sleep s (backupRunnerInterval s) w1) of
             (evs, w2) \<Rightarrow> (Ticked logs spawned # Slept (backupRunnerInterval s) # evs, w2)))"


section \<open>The store\<close>

subsection \<open>FindBackupSettingsMatch\<close>

text \<open>
  Modelled from the spec: \<^verbatim>\<open>FindBackupSettingsMatch\<close> of the backup service (package
  \<^verbatim>\<open>store\<close>, outside the sources at hand). The spec: the match predicate is
  \<open>hour == bucket.hour AND day_of_week == bucket.day_of_week\<close>, and the query returns all
  BackupSettings satisfying it.
\<close>

definition spec_FindBackupSettingsMatch ::
  "BackupSetting list \<Rightarrow> BackupSettingsMatch \<Rightarrow> BackupSetting list" where
  "spec_FindBackupSettingsMatch all match =
     filter (\<lambda>bs. BackupSetting.Hour bs = BackupSettingsMatch.Hour match
                 \<and> BackupSetting.DayOfWeek bs = BackupSettingsMatch.DayOfWeek match) all"


subsection \<open>An entity store in memory\<close>

text \<open>
  Modelled from the spec: the Conflict-Aware Entity Store (packages \<^verbatim>\<open>store\<close> and
  \<^verbatim>\<open>api\<close> are outside the sources at hand). Creating a Backup whose (database, name)
  pair exists fails with the "already exists" code; a lookup miss is a not-found error;
  the other operations fail when the store is told to (an internal failure). The clock
  shows one reading until the runner sleeps.
\<close>

record mem_store =
  ms_now :: Time
  ms_settings :: "BackupSetting list"
  ms_settings_err :: "error option"
  ms_databases :: "Database list"
  ms_backups :: "BackupCreate list"
  ms_backup_err :: "error option"
  ms_pipelines :: "PipelineCreate list"
  ms_pipeline_err :: "error option"
  ms_stages :: "StageCreate list"
  ms_stage_err :: "error option"
  ms_tasks :: "TaskCreate list"
  ms_task_err :: "error option"

definition mem_FindBackupSettingsMatch ::
  "BackupSettingsMatch \<Rightarrow> mem_store \<Rightarrow> (BackupSetting list \<times> error option) outcome \<times> mem_store" where
  "mem_FindBackupSettingsMatch match w =
     (case ms_settings_err w of
        Some e \<Rightarrow> (Returns ([], Some e), w)
      | None \<Rightarrow> (Returns (spec_FindBackupSettingsMatch (ms_settings w) match, None), w))"

definition mem_resolve :: "mem_store \<Rightarrow> DatabaseFind \<Rightarrow> error + Database" where
  "mem_resolve w f =
     (case find (\<lambda>d. Some (Database.ID d) = DatabaseFind.ID f) (ms_databases w) of
        None \<Rightarrow> Inl (Error ENOTFOUND ''database not found'')
      | Some d \<Rightarrow> Inr d)"

definition mem_ComposeDatabaseByFind ::
  "DatabaseFind \<Rightarrow> mem_store \<Rightarrow> (error + Database) outcome \<times> mem_store" where
  "mem_ComposeDatabaseByFind f w = (Returns (mem_resolve w f), w)"

definition mem_CreateBackup :: "BackupCreate \<Rightarrow> mem_store \<Rightarrow> (error + Backup) \<times> mem_store" where
  "mem_CreateBackup c w =
     (case ms_backup_err w of
        Some e \<Rightarrow> (Inl e, w)
      | None \<Rightarrow>
          if list_ex (\<lambda>b. BackupCreate.DatabaseId b = BackupCreate.DatabaseId c
                          \<and> BackupCreate.Name b = BackupCreate.Name c) (ms_backups w)
          then (Inl (Error ECONFLICT ''backup exists''), w)
          else (Inr \<lparr> Backup.ID = int (length (ms_backups w)) + 1 \<rparr>,
                w\<lparr> ms_backups := ms_backups w @ [c] \<rparr>))"

definition mem_json_Marshal :: "TaskDatabaseBackupPayload \<Rightarrow> error + string" where
  "mem_json_Marshal p =
     Inr (''{'' @ [CHR 0x22] @ ''backupId'' @ [CHR 0x22] @ '':'' @ fmt_v_int (BackupID p) @ ''}'')"

definition mem_CreatePipeline ::
  "PipelineCreate \<Rightarrow> mem_store \<Rightarrow> (error + Pipeline) \<times> mem_store" where
  "mem_CreatePipeline c w =
     (case ms_pipeline_err w of
        Some e \<Rightarrow> (Inl e, w)
      | None \<Rightarrow> (Inr \<lparr> Pipeline.ID = int (length (ms_pipelines w)) + 1 \<rparr>,
                 w\<lparr> ms_pipelines := ms_pipelines w @ [c] \<rparr>))"

definition mem_CreateStage :: "StageCreate \<Rightarrow> mem_store \<Rightarrow> (error + Stage) \<times> mem_store" where
  "mem_CreateStage c w =
     (case ms_stage_err w of
        Some e \<Rightarrow> (Inl e, w)
      | None \<Rightarrow> (Inr \<lparr> Stage.ID = int (length (ms_stages w)) + 1 \<rparr>,
                 w\<lparr> ms_stages := ms_stages w @ [c] \<rparr>))"

definition mem_CreateTask :: "TaskCreate \<Rightarrow> mem_store \<Rightarrow> (error + Task) \<times> mem_store" where
  "mem_CreateTask c w =
     (case ms_task_err w of
        Some e \<Rightarrow> (Inl e, w)
      | None \<Rightarrow> (Inr \<lparr> Task.ID = int (length (ms_tasks w)) + 1 \<rparr>,
                 w\<lparr> ms_tasks := ms_tasks w @ [c] \<rparr>))"

definition mem_runner :: "mem_store BackupRunner" where
  "mem_runner =
     \<lparr> backupRunnerInterval = 600 * 1000000000,
       SYSTEM_BOT_ID = 1,
       time_Now = (\<lambda>w. (ms_now w, w)),
       time_Sleep = (\<lambda>d w. w\<lparr> ms_now := (ms_now w)\<lparr> unix_nano := unix_nano (ms_now w) + d \<rparr> \<rparr>),
       FindBackupSettingsMatch = mem_FindBackupSettingsMatch,
       ComposeDatabaseByFind = mem_ComposeDatabaseByFind,
       CreateBackup = mem_CreateBackup,
       json_Marshal = mem_json_Marshal,
       CreatePipeline = mem_CreatePipeline,
       CreateStage = mem_CreateStage,
       CreateTask = mem_CreateTask \<rparr>"

text \<open>
  A small fleet: database 42 in environment \<open>prod\<close>, backed up on Tuesdays at 03:00 UTC
  with the default path, database 7 with a path template on the same schedule, and a
  setting for a database 99 that is gone. The clock shows 1970-01-06 03:17:00 UTC, a
  Tuesday, in a location one hour east of UTC.
\<close>

definition db42 :: Database where
  "db42 = \<lparr> Database.ID = 42, Database.Name = ''shop'', Database.InstanceId = 5,
            Instance = \<lparr> Instance.EnvironmentId = 3, Environment = \<lparr> Environment.Name = ''prod'' \<rparr> \<rparr> \<rparr>"

definition db7 :: Database where
  "db7 = \<lparr> Database.ID = 7, Database.Name = ''crm'', Database.InstanceId = 6,
           Instance = \<lparr> Instance.EnvironmentId = 3, Environment = \<lparr> Environment.Name = ''prod'' \<rparr> \<rparr> \<rparr>"

definition no_db :: Database where
  "no_db = \<lparr> Database.ID = 0, Database.Name = [], Database.InstanceId = 0,
             Instance = \<lparr> Instance.EnvironmentId = 0, Environment = \<lparr> Environment.Name = [] \<rparr> \<rparr> \<rparr>"

definition setting42 :: BackupSetting where
  "setting42 = \<lparr> BackupSetting.ID = 1, BackupSetting.DatabaseId = 42, BackupSetting.Hour = 3,
                 BackupSetting.DayOfWeek = 2, PathTemplate = [], Database = no_db \<rparr>"

definition setting7 :: BackupSetting where
  "setting7 = \<lparr> BackupSetting.ID = 2, BackupSetting.DatabaseId = 7, BackupSetting.Hour = 3,
                BackupSetting.DayOfWeek = 2, PathTemplate = ''bk/{{TIME}}/crm.sql'', Database = no_db \<rparr>"

definition setting99 :: BackupSetting where
  "setting99 = \<lparr> BackupSetting.ID = 3, BackupSetting.DatabaseId = 99, BackupSetting.Hour = 3,
                 BackupSetting.DayOfWeek = 2, PathTemplate = [], Database = no_db \<rparr>"

definition tuesday_0317 :: Time where
  "tuesday_0317 = \<lparr> unix_nano = 443820 * 1000000000, zone_offset = 3600 \<rparr>"

definition store0 :: mem_store where
  "store0 =
     \<lparr> ms_now = tuesday_0317,
       ms_settings = [setting99, setting42, setting7],
       ms_settings_err = None,
       ms_databases = [db42, db7],
       ms_backups = [],
       ms_backup_err = None,
       ms_pipelines = [],
       ms_pipeline_err = None,
       ms_stages = [],
       ms_stage_err = None,
       ms_tasks = [],
       ms_task_err = None \<rparr>"


section \<open>The project service of the store\<close>

record Project =
  ID :: int
  RowStatus :: string
  CreatorId :: int
  CreatedTs :: int
  UpdaterId :: int
  UpdatedTs :: int
  WorkspaceId :: int
  Name :: string
  Key :: string

record ProjectFind =
  ID :: "int option"
  RowStatus :: "string option"
  WorkspaceId :: "int option"
  PrincipalId :: "int option"

text \<open>
  The database under the service (the types \<^verbatim>\<open>DB\<close> and \<^verbatim>\<open>Tx\<close> and the SQL engine
  are outside the sources at hand): the rows of table \<open>project\<close> in the order a query
  yields them, the (project id, principal id) pairs of table \<open>project_member\<close>, and for
  each call that can fail the driver error it fails with, if it does.
\<close>

record DB =
  project :: "Project list"
  project_member :: "(int \<times> int) list"
  BeginTx_err :: "string option"
  QueryContext_err :: "string option"
  Scan_err :: "Project \<Rightarrow> string option"
  rows_Err :: "string option"

text \<open>
  The service with what it calls: \<^verbatim>\<open>FormatError\<close> turns a driver error into an error
  of the store, and \<open>fmt_v_find\<close> is \<^verbatim>\<open>%v\<close> at a \<^verbatim>\<open>*api.ProjectFind\<close>.
\<close>

record ProjectService =
  db :: DB
  FormatError :: "string \<Rightarrow> error"
  fmt_v_find :: "ProjectFind \<Rightarrow> string"

text \<open>The conjuncts of the WHERE clause that \<^verbatim>\<open>findProjectList\<close> builds, as tests on a row.\<close>

definition where_clause :: "DB \<Rightarrow> ProjectFind \<Rightarrow> (Project \<Rightarrow> bool) list" where
  "where_clause d fnd =
     [\<lambda>p. True]
     @ (case ProjectFind.ID fnd of Some v \<Rightarrow> [\<lambda>p. Project.ID p = v] | None \<Rightarrow> [])
     @ (case ProjectFind.RowStatus fnd of Some v \<Rightarrow> [\<lambda>p. Project.RowStatus p = v] | None \<Rightarrow> [])
     @ (case ProjectFind.WorkspaceId fnd of Some v \<Rightarrow> [\<lambda>p. Project.WorkspaceId p = v] | None \<Rightarrow> [])
     @ (case PrincipalId fnd of
          Some v \<Rightarrow> [\<lambda>p. Project.ID p \<in> set (map fst (filter (\<lambda>m. snd m = v) (project_member d)))]
        | None \<Rightarrow> [])"

definition row_matches :: "DB \<Rightarrow> ProjectFind \<Rightarrow> Project \<Rightarrow> bool" where
  "row_matches d fnd p = list_all (\<lambda>c. c p) (where_clause d fnd)"

text \<open>The loop \<^verbatim>\<open>for rows.Next() { rows.Scan(...); list = append(list, &project) }\<close>.\<close>

fun scan_rows :: "ProjectService \<Rightarrow> Project list \<Rightarrow> error + Project list" where
  "scan_rows s [] = Inr []"
| "scan_rows s (row # rows) =
     (case Scan_err (db s) row of
        Some e \<Rightarrow> Inl (FormatError s e)
      | None \<Rightarrow> (case scan_rows s rows of Inl err \<Rightarrow> Inl err | Inr list \<Rightarrow> Inr (row # list)))"

definition findProjectList :: "ProjectService \<Rightarrow> ProjectFind \<Rightarrow> error + Project list" where
  "findProjectList s fnd =
     (case QueryContext_err (db s) of
        Some e \<Rightarrow> Inl (FormatError s e)
      | None \<Rightarrow>
          (case scan_rows s (filter (row_matches (db s) fnd) (project (db s))) of
             Inl err \<Rightarrow> Inl err
           | Inr list \<Rightarrow>
               (case rows_Err (db s) of
                  Some e \<Rightarrow> Inl (FormatError s e)
                | None \<Rightarrow> Inr list)))"

text \<open>\<^verbatim>\<open>FindProject\<close> returns the project or the error, and the warnings it logs.\<close>

definition FindProject :: "ProjectService \<Rightarrow> ProjectFind \<Rightarrow> (error + Project) \<times> string list" where
  "FindProject s fnd =
     (case BeginTx_err (db s) of
        Some e \<Rightarrow> (Inl (FormatError s e), [])
      | None \<Rightarrow>
          (case findProjectList s fnd of
             Inl err \<Rightarrow> (Inl err, [])
           | Inr list \<Rightarrow>
               if length list = 0
               then (Inl (Error ENOTFOUND (''project not found: '' @ fmt_v_find s fnd)), [])
               else (Inr (list ! 0),
                     if length list > 1
                     then [''found mulitple projects: '' @ fmt_v_int (int (length list))
                           @ '', expect 1'']
                     else [])))"

text \<open>Two projects of workspace 1, and a service whose database holds them.\<close>

definition project1 :: Project where
  "project1 = \<lparr> Project.ID = 1, Project.RowStatus = ''NORMAL'', Project.CreatorId = 1, CreatedTs = 10,
                UpdaterId = 1, UpdatedTs = 10, Project.WorkspaceId = 1, Project.Name = ''Default'',
                Key = ''DEF'' \<rparr>"

definition project2 :: Project where
  "project2 = \<lparr> Project.ID = 2, Project.RowStatus = ''NORMAL'', Project.CreatorId = 1, CreatedTs = 20,
                UpdaterId = 1, UpdatedTs = 20, Project.WorkspaceId = 1, Project.Name = ''Shop'',
                Key = ''SHP'' \<rparr>"

definition project_service0 :: ProjectService where
  "project_service0 =
     \<lparr> db = \<lparr> project = [project1, project2], project_member = [(1, 100), (2, 100), (2, 101)],
              BeginTx_err = None, QueryContext_err = None, Scan_err = (\<lambda>p. None),
              rows_Err = None \<rparr>,
       FormatError = OtherError,
       fmt_v_find = (\<lambda>f. ''&{...}'') \<rparr>"

definition find_workspace :: "int \<Rightarrow> ProjectFind" where
  "find_workspace v = \<lparr> ProjectFind.ID = None, ProjectFind.RowStatus = None,
                        ProjectFind.WorkspaceId = Some v, PrincipalId = None \<rparr>"


section \<open>Example data\<close>

text \<open>Three more readings of the clock: the last nanosecond of the same hour, the next
  hour, and the same time of day a day later.\<close>

definition later_0359 :: Time where
  "later_0359 = \<lparr> unix_nano = 446399 * 1000000000 + 999999999, zone_offset = 0 \<rparr>"

definition next_0400 :: Time where
  "next_0400 = \<lparr> unix_nano = 446400 * 1000000000, zone_offset = - 18000 \<rparr>"

definition wednesday_0317 :: Time where
  "wednesday_0317 = \<lparr> unix_nano = 530220 * 1000000000, zone_offset = 0 \<rparr>"

text \<open>The two settings as a tick hands them to an attempt, with the database resolved.\<close>

definition resolved42 :: BackupSetting where
  "resolved42 = setting42\<lparr> Database := db42 \<rparr>"

definition resolved7 :: BackupSetting where
  "resolved7 = setting7\<lparr> Database := db7 \<rparr>"

text \<open>
  The store half a second later, at 03:17:00.5 UTC, and at the end of the hour.
\<close>

definition later_0317 :: Time where
  "later_0317 = \<lparr> unix_nano = 443820 * 1000000000 + 500000000, zone_offset = 0 \<rparr>"

definition store_0317 :: mem_store where
  "store_0317 = store0\<lparr> ms_now := later_0317 \<rparr>"

definition store_0359 :: mem_store where
  "store_0359 = store0\<lparr> ms_now := later_0359 \<rparr>"

text \<open>
  The attempt for database 42 of the tick at 03:17:00: what it asks the store to create,
  the store after it, and stores in which one of the create operations fails.
\<close>

definition key42 :: string where
  "key42 = ''auto-backup-442800-42''"

definition backupCreate42 :: BackupCreate where
  "backupCreate42 =
     \<lparr> BackupCreate.CreatorId = 1, BackupCreate.DatabaseId = 42, BackupCreate.Name = key42,
       BackupCreate.Status = BackupStatusPendingCreate, BackupCreate.Type = BackupTypeAutomatic,
       StorageBackend = BackupStorageBackendLocal, Path = ''prod-shop-443820.sql'',
       Comment = ''Automatic backup for database shop at 443820'' \<rparr>"

definition pipelineCreate42 :: PipelineCreate where
  "pipelineCreate42 = \<lparr> PipelineCreate.Name = key42, PipelineCreate.CreatorId = 1 \<rparr>"

definition stageCreate42 :: StageCreate where
  "stageCreate42 = \<lparr> StageCreate.Name = key42, StageCreate.EnvironmentId = 3,
                      StageCreate.PipelineId = 1, StageCreate.CreatorId = 1 \<rparr>"

definition payload_backup1 :: string where
  "payload_backup1 = ''{'' @ [CHR 0x22] @ ''backupId'' @ [CHR 0x22] @ '':1}''"

definition taskCreate42 :: TaskCreate where
  "taskCreate42 =
     \<lparr> TaskCreate.Name = key42, TaskCreate.PipelineId = 1, StageId = 1,
       TaskCreate.InstanceId = 5, TaskCreate.DatabaseId = Some 42, TaskCreate.Status = TaskPending,
       TaskCreate.Type = TaskDatabaseBackup, Payload = payload_backup1, TaskCreate.CreatorId = 1 \<rparr>"

definition store_done42 :: mem_store where
  "store_done42 = store0\<lparr> ms_backups := [backupCreate42], ms_pipelines := [pipelineCreate42],
                          ms_stages := [stageCreate42], ms_tasks := [taskCreate42] \<rparr>"

definition disk_full :: error where
  "disk_full = OtherError ''disk full''"

definition store_backup_fails :: mem_store where
  "store_backup_fails = store0\<lparr> ms_backup_err := Some disk_full \<rparr>"

definition store_pipeline_fails :: mem_store where
  "store_pipeline_fails = store0\<lparr> ms_pipeline_err := Some disk_full \<rparr>"

definition store_stage_fails :: mem_store where
  "store_stage_fails = store0\<lparr> ms_stage_err := Some disk_full \<rparr>"

definition store_task_fails :: mem_store where
  "store_task_fails = store0\<lparr> ms_task_err := Some disk_full \<rparr>"




definition store_0400 :: mem_store where
  "store_0400 = store0\<lparr> ms_now := next_0400 \<rparr>"




section \<open>Lemmas\<close>


lemma run_t_unix_nano: "unix_nano (run_t now) = time_Hour * (unix_nano now div time_Hour)"
proof -
  have "(unix_nano now + unixToInternal * 1000000000) mod time_Hour = unix_nano now mod time_Hour"
  proof -
    have e: "unixToInternal * 1000000000 = 17259888 * time_Hour"
      by (simp add: unixToInternal_def time_Hour_def)
    show ?thesis unfolding e by (rule mod_mult_self1)
  qed
  moreover have "unix_nano now - unix_nano now mod time_Hour = time_Hour * (unix_nano now div time_Hour)"
    by (simp add: minus_mod_eq_mult_div)
  moreover have "\<not> time_Hour \<le> 0" by (simp add: time_Hour_def)
  ultimately show ?thesis
    by (simp add: run_t_def Time_Truncate_def Time_UTC_def)
qed

lemma hour_index_nano: "utc_hour_index t = unix_nano t div time_Hour"
proof -
  have "unix_nano t div 1000000000 div 3600 = unix_nano t div (1000000000 * 3600)"
    by (rule zdiv_zmult2_eq [symmetric]) simp
  then show ?thesis by (simp add: utc_hour_index_def Time_Unix_def time_Hour_def)
qed

lemma run_t_Unix: "Time_Unix (run_t now) = 3600 * utc_hour_index now"
proof -
  have "time_Hour * (unix_nano now div time_Hour) = (3600 * (unix_nano now div time_Hour)) * 1000000000"
    by (simp add: time_Hour_def)
  then have "unix_nano (run_t now) div 1000000000 = 3600 * (unix_nano now div time_Hour)"
    by (simp only: run_t_unix_nano nonzero_mult_div_cancel_right)
  then show ?thesis by (simp add: Time_Unix_def hour_index_nano)
qed

lemma run_t_zone: "zone_offset (run_t now) = 0"
  by (simp add: run_t_def Time_Truncate_def Time_UTC_def)

lemma run_t_eq_iff: "run_t a = run_t b \<longleftrightarrow> utc_hour_index a = utc_hour_index b"
proof
  assume "run_t a = run_t b"
  then have "Time_Unix (run_t a) = Time_Unix (run_t b)" by simp
  then show "utc_hour_index a = utc_hour_index b" by (simp add: run_t_Unix)
next
  assume "utc_hour_index a = utc_hour_index b"
  then have "unix_nano (run_t a) = unix_nano (run_t b)"
    by (simp add: run_t_unix_nano hour_index_nano)
  moreover have "zone_offset (run_t a) = zone_offset (run_t b)" by (simp add: run_t_zone)
  ultimately show "run_t a = run_t b" by simp
qed

lemma hour_index_bounds:
  "utc_hour_index t = k \<longleftrightarrow> k * time_Hour \<le> unix_nano t \<and> unix_nano t < (k + 1) * time_Hour"
proof -
  have pos: "0 < time_Hour" by (simp add: time_Hour_def)
  define q where "q = unix_nano t div time_Hour"
  define r where "r = unix_nano t mod time_Hour"
  have n: "unix_nano t = q * time_Hour + r" unfolding q_def r_def by simp
  have r0: "0 \<le> r" and r1: "r < time_Hour" unfolding r_def using pos by simp_all
  have "q = k \<longleftrightarrow> k * time_Hour \<le> q * time_Hour + r \<and> q * time_Hour + r < (k + 1) * time_Hour"
  proof
    assume "q = k"
    with r0 r1 show "k * time_Hour \<le> q * time_Hour + r \<and> q * time_Hour + r < (k + 1) * time_Hour"
      by (simp add: algebra_simps)
  next
    assume a: "k * time_Hour \<le> q * time_Hour + r \<and> q * time_Hour + r < (k + 1) * time_Hour"
    have "\<not> q < k"
    proof
      assume "q < k"
      then have "q + 1 \<le> k" by simp
      then have "(q + 1) * time_Hour \<le> k * time_Hour" using pos by (simp only: mult_right_mono less_imp_le)
      with a r1 show False by (simp add: algebra_simps)
    qed
    moreover have "\<not> k < q"
    proof
      assume "k < q"
      then have "k + 1 \<le> q" by simp
      then have "(k + 1) * time_Hour \<le> q * time_Hour" using pos by (simp only: mult_right_mono less_imp_le)
      with a r0 show False by (simp add: algebra_simps)
    qed
    ultimately show "q = k" by simp
  qed
  then show ?thesis unfolding n [symmetric] by (simp add: hour_index_nano q_def)
qed


lemma digit_char_code: "d < 10 \<Longrightarrow> of_char (digit_char d) = 48 + d"
proof -
  assume "d < 10"
  then have "d \<in> {0, 1, 2, 3, 4, 5, 6, 7, 8, 9}" by auto
  then show ?thesis by (elim insertE emptyE) (simp_all add: digit_char_def)
qed

lemma digit_char_inj: "a < 10 \<Longrightarrow> b < 10 \<Longrightarrow> digit_char a = digit_char b \<Longrightarrow> a = b"
proof -
  assume a: "a < 10" and b: "b < 10" and e: "digit_char a = digit_char b"
  have "48 + a = (of_char (digit_char a) :: nat)" using a by (simp only: digit_char_code)
  also have "\<dots> = of_char (digit_char b)" by (simp only: e)
  also have "\<dots> = 48 + b" using b by (simp only: digit_char_code)
  finally show "a = b" by simp
qed

lemma digit_char_not_minus: "d < 10 \<Longrightarrow> digit_char d \<noteq> CHR ''-''"
proof
  assume d: "d < 10" and e: "digit_char d = CHR ''-''"
  have "48 + d = (of_char (digit_char d) :: nat)" using d by (simp only: digit_char_code)
  also have "\<dots> = 45" by (simp add: e)
  finally show False by simp
qed

lemma digits_lt10: "n < 10 \<Longrightarrow> digits n = [digit_char n]"
  by (subst digits.simps) simp

lemma digits_ge10: "\<not> n < 10 \<Longrightarrow> digits n = digits (n div 10) @ [digit_char (n mod 10)]"
  by (subst digits.simps) simp

lemma digits_nonempty: "digits n \<noteq> []"
  by (cases "n < 10") (simp_all add: digits_lt10 digits_ge10)

lemma digits_last: "last (digits n) = digit_char (n mod 10)"
  by (cases "n < 10") (simp_all add: digits_lt10 digits_ge10)

lemma digits_butlast: "\<not> n < 10 \<Longrightarrow> butlast (digits n) = digits (n div 10)"
  by (simp add: digits_ge10 butlast_append)

lemma digits_length1: "length (digits n) = Suc 0 \<longleftrightarrow> n < 10"
proof (cases "n < 10")
  case True
  then show ?thesis by (simp add: digits_lt10)
next
  case False
  have "digits (n div 10) \<noteq> []" by (rule digits_nonempty)
  then have "length (digits (n div 10)) \<noteq> 0" by simp
  with False show ?thesis by (simp add: digits_ge10)
qed

lemma digits_inj: "digits a = digits b \<Longrightarrow> a = b"
proof (induction a arbitrary: b rule: digits.induct)
  case (1 n)
  show ?case
  proof (cases "n < 10")
    case True
    then have "length (digits b) = Suc 0" using 1(2) digits_length1 [of n] by simp
    then have b: "b < 10" by (simp add: digits_length1)
    from 1(2) True b have "digit_char n = digit_char b" by (simp add: digits_lt10)
    with True b show ?thesis by (rule digit_char_inj)
  next
    case False
    then have "length (digits b) \<noteq> Suc 0" using 1(2) digits_length1 [of n] by simp
    then have b: "\<not> b < 10" by (simp add: digits_length1)
    from 1(2) have "butlast (digits n) = butlast (digits b)" by simp
    with False b have "digits (n div 10) = digits (b div 10)" by (simp add: digits_butlast)
    with 1(1) False have d: "n div 10 = b div 10" by simp
    from 1(2) have "last (digits n) = last (digits b)" by simp
    then have "digit_char (n mod 10) = digit_char (b mod 10)" by (simp add: digits_last)
    then have m: "n mod 10 = b mod 10" by (intro digit_char_inj) simp_all
    from d m show ?thesis by (metis div_mult_mod_eq)
  qed
qed

lemma digits_hd_not_minus: "hd (digits n) \<noteq> CHR ''-''"
proof (induction n rule: digits.induct)
  case (1 n)
  show ?case
  proof (cases "n < 10")
    case True
    then show ?thesis by (simp add: digits_lt10 digit_char_not_minus)
  next
    case False
    with 1 show ?thesis by (simp add: digits_ge10 digits_nonempty)
  qed
qed

lemma fmt_v_int_neg_nonneg: "x < 0 \<Longrightarrow> \<not> y < 0 \<Longrightarrow> fmt_v_int x \<noteq> fmt_v_int y"
proof
  assume "x < 0" "\<not> y < 0" "fmt_v_int x = fmt_v_int y"
  then have "CHR ''-'' # digits (nat (- x)) = digits (nat y)" by (simp add: fmt_v_int_def)
  then have "hd (digits (nat y)) = CHR ''-''" by (metis list.sel(1))
  then show False by (simp add: digits_hd_not_minus)
qed

lemma fmt_v_int_inj: "fmt_v_int a = fmt_v_int b \<Longrightarrow> a = b"
proof -
  assume e: "fmt_v_int a = fmt_v_int b"
  show "a = b"
  proof (cases "a < 0"; cases "b < 0")
    assume "a < 0" "b < 0"
    with e have "digits (nat (- a)) = digits (nat (- b))" by (simp add: fmt_v_int_def)
    then have "nat (- a) = nat (- b)" by (rule digits_inj)
    with \<open>a < 0\<close> \<open>b < 0\<close> show ?thesis by simp
  next
    assume "a < 0" "\<not> b < 0"
    with fmt_v_int_neg_nonneg e show ?thesis by blast
  next
    assume "\<not> a < 0" "b < 0"
    with fmt_v_int_neg_nonneg [of b a] e show ?thesis by simp
  next
    assume "\<not> a < 0" "\<not> b < 0"
    with e have "digits (nat a) = digits (nat b)" by (simp add: fmt_v_int_def)
    then have "nat a = nat b" by (rule digits_inj)
    with \<open>\<not> a < 0\<close> \<open>\<not> b < 0\<close> show ?thesis by simp
  qed
qed

lemma fmt_v_int_eq_iff: "fmt_v_int a = fmt_v_int b \<longleftrightarrow> a = b"
  using fmt_v_int_inj by blast

lemma sched_key_eq_iff: "sched_key bs uk1 = sched_key bs uk2 \<longleftrightarrow> uk1 = uk2"
  by (simp add: sched_key_def)

lemma bucket_key_eq_iff:
  "sched_key bs (run_uniqueKey (run_t a)) = sched_key bs (run_uniqueKey (run_t b))
     \<longleftrightarrow> utc_hour_index a = utc_hour_index b"
  by (simp add: sched_key_eq_iff run_uniqueKey_def fmt_v_int_eq_iff run_t_Unix)

lemma hour_index_tuesday_0317: "utc_hour_index tuesday_0317 = 123"
  by (simp add: utc_hour_index_def Time_Unix_def tuesday_0317_def)

lemma run_t_tuesday_0317: "run_t tuesday_0317 = \<lparr> unix_nano = 442800 * 1000000000, zone_offset = 0 \<rparr>"
  by (simp add: run_t_def Time_Truncate_def Time_UTC_def time_Hour_def unixToInternal_def tuesday_0317_def)

lemma fmt_442800: "fmt_v_int 442800 = ''442800''"
  by (simp add: fmt_v_int_def digits_lt10 digits_ge10 digit_char_def)

lemma fmt_443820: "fmt_v_int 443820 = ''443820''"
  by (simp add: fmt_v_int_def digits_lt10 digits_ge10 digit_char_def)

lemma fmt_42: "fmt_v_int 42 = ''42''"
  by (simp add: fmt_v_int_def digits_lt10 digits_ge10 digit_char_def)

lemma fmt_7: "fmt_v_int 7 = ''7''"
  by (simp add: fmt_v_int_def digits_lt10 digits_ge10 digit_char_def)

lemma ReplaceAll_Nil: "ReplaceAll [] old new = []"
  by (subst ReplaceAll.simps) simp

lemma ReplaceAll_match:
  "old \<noteq> [] \<Longrightarrow> ReplaceAll (old @ rest) old new = new @ ReplaceAll rest old new"
  by (subst ReplaceAll.simps) simp

lemma ReplaceAll_step:
  "old \<noteq> [] \<Longrightarrow> take (length old) (c # s) \<noteq> old \<Longrightarrow>
   ReplaceAll (c # s) old new = c # ReplaceAll s old new"
  by (subst ReplaceAll.simps) simp

lemma ReplaceAll_no_occurrence:
  "old \<noteq> [] \<Longrightarrow> \<not> occurs old s \<Longrightarrow> ReplaceAll s old new = s"
proof (induction s)
  case Nil
  show ?case by (rule ReplaceAll_Nil)
next
  case (Cons c s)
  from Cons.prems have "take (length old) (c # s) \<noteq> old" and "\<not> occurs old s" by simp_all
  with Cons.IH Cons.prems(1) show ?case by (simp add: ReplaceAll_step)
qed

lemma take_before_match:
  assumes "old \<noteq> []"
  shows "take (length old) (c # p @ old @ rest) = take (length old) (c # p @ butlast old)"
proof -
  have "c # p @ old @ rest = (c # p @ butlast old) @ (last old # rest)"
    using assms by simp
  moreover have "length old \<le> length (c # p @ butlast old)"
    using assms by simp
  ultimately show ?thesis by (simp only: take_append) simp
qed

lemma ReplaceAll_first:
  "old \<noteq> [] \<Longrightarrow> \<not> occurs old (pre @ butlast old) \<Longrightarrow>
   ReplaceAll (pre @ old @ rest) old new = pre @ new @ ReplaceAll rest old new"
proof (induction pre)
  case Nil
  then show ?case by (simp add: ReplaceAll_match)
next
  case (Cons c p)
  from Cons.prems(2) have a: "take (length old) (c # p @ butlast old) \<noteq> old"
    and b: "\<not> occurs old (p @ butlast old)" by simp_all
  from a Cons.prems(1) have n: "take (length old) (c # p @ old @ rest) \<noteq> old"
    by (simp only: take_before_match not_False_eq_True)
  have "ReplaceAll (c # p @ old @ rest) old new = c # ReplaceAll (p @ old @ rest) old new"
    using Cons.prems(1) n by (rule ReplaceAll_step)
  with Cons.IH [OF Cons.prems(1) b] show ?case by simp
qed

lemma run_epoch_Unix: "run_epoch now = Time_Unix now"
  by (simp add: run_epoch_def Time_Unix_def Time_UTC_def)

lemma range_list_launched:
  "range_list s uniqueKey epoch list w = (res, w') \<Longrightarrow> (bs, uk, ep) \<in> set (launched res) \<Longrightarrow>
   uk = uniqueKey \<and> ep = epoch"
proof (induction list arbitrary: w res w')
  case Nil
  then show ?case by auto
next
  case (Cons b rest)
  then show ?case
    by (fastforce split: prod.splits outcome.splits sum.splits)
qed

lemma Run_tick_launched:
  assumes "time_Now s w = (now1, w1)" and "time_Now s w1 = (now2, w2)"
    and "(bs, uk, ep) \<in> set (snd (fst (Run_tick s w)))"
  shows "uk = run_uniqueKey (run_t now1) \<and> ep = run_epoch now2"
proof (cases "FindBackupSettingsMatch s (run_match (run_t now1)) w2")
  case (Pair r w3)
  show ?thesis
  proof (cases r)
    case (Panics x)
    with assms Pair show ?thesis by (simp add: Run_tick_def)
  next
    case (Returns p)
    obtain list err where p: "p = (list, err)" by (cases p)
    obtain res w4 where rl: "range_list s (run_uniqueKey (run_t now1)) (run_epoch now2) list w3 = (res, w4)"
      by (cases "range_list s (run_uniqueKey (run_t now1)) (run_epoch now2) list w3")
    from assms Pair Returns p rl have "(bs, uk, ep) \<in> set (launched res)"
      by (simp add: Run_tick_def)
    with rl show ?thesis by (rule range_list_launched)
  qed
qed


lemma run_match_tuesday_0317:
  "run_match (run_t tuesday_0317) = \<lparr> BackupSettingsMatch.Hour = 3, DayOfWeek = 2 \<rparr>"
  by (simp add: run_match_def run_t_tuesday_0317 Time_Hour_def Time_Weekday_def Time_Unix_def)

lemma run_uniqueKey_tuesday_0317: "run_uniqueKey (run_t tuesday_0317) = ''442800''"
  by (simp add: run_uniqueKey_def run_t_tuesday_0317 Time_Unix_def fmt_442800)

lemma run_epoch_tuesday_0317: "run_epoch tuesday_0317 = 443820"
  by (simp add: run_epoch_Unix Time_Unix_def tuesday_0317_def)

lemma find_store0:
  "mem_FindBackupSettingsMatch \<lparr> BackupSettingsMatch.Hour = 3, DayOfWeek = 2 \<rparr> store0
     = (Returns ([setting99, setting42, setting7], None), store0)"
  by (simp add: mem_FindBackupSettingsMatch_def spec_FindBackupSettingsMatch_def store0_def
      setting99_def setting42_def setting7_def)

lemma compose_store0:
  "mem_ComposeDatabaseByFind \<lparr> DatabaseFind.ID = Some 99 \<rparr> store0
     = (Returns (Inl (Error ENOTFOUND ''database not found'')), store0)"
  "mem_ComposeDatabaseByFind \<lparr> DatabaseFind.ID = Some 42 \<rparr> store0 = (Returns (Inr db42), store0)"
  "mem_ComposeDatabaseByFind \<lparr> DatabaseFind.ID = Some 7 \<rparr> store0 = (Returns (Inr db7), store0)"
  by (simp_all add: mem_ComposeDatabaseByFind_def mem_resolve_def store0_def db42_def db7_def)

lemma mem_runner_sel:
  "time_Now mem_runner w = (ms_now w, w)"
  "FindBackupSettingsMatch mem_runner = mem_FindBackupSettingsMatch"
  "ComposeDatabaseByFind mem_runner = mem_ComposeDatabaseByFind"
  "CreateBackup mem_runner = mem_CreateBackup"
  "json_Marshal mem_runner = mem_json_Marshal"
  "CreatePipeline mem_runner = mem_CreatePipeline"
  "CreateStage mem_runner = mem_CreateStage"
  "CreateTask mem_runner = mem_CreateTask"
  "SYSTEM_BOT_ID mem_runner = 1"
  "backupRunnerInterval mem_runner = 600 * 1000000000"
  by (simp_all add: mem_runner_def)

lemma setting_ids:
  "BackupSetting.DatabaseId setting99 = 99" "BackupSetting.ID setting99 = 3"
  "BackupSetting.DatabaseId setting42 = 42" "BackupSetting.DatabaseId setting7 = 7"
  by (simp_all add: setting99_def setting42_def setting7_def)

lemma range_list_store0:
  "range_list mem_runner ''442800'' 443820 [setting99, setting42, setting7] store0
     = (\<lparr> panicked = None,
           logged = [FailedToGetDatabase 3 99 (Error ENOTFOUND ''database not found'')],
           launched = [(resolved42, ''442800'', 443820), (resolved7, ''442800'', 443820)] \<rparr>, store0)"
  by (simp add: mem_runner_sel setting_ids compose_store0 resolved42_def resolved7_def)

lemma ms_now_store0: "ms_now store0 = tuesday_0317"
  by (simp add: store0_def)

lemma Run_tick_store0:
  "Run_tick mem_runner store0
     = (([FailedToGetDatabase 3 99 (Error ENOTFOUND ''database not found'')],
         [(resolved42, ''442800'', 443820), (resolved7, ''442800'', 443820)]), store0)"
  by (simp add: Run_tick_def mem_runner_sel ms_now_store0 run_match_tuesday_0317
      run_uniqueKey_tuesday_0317 run_epoch_tuesday_0317 find_store0 range_list_store0
      del: range_list.simps)

lemma sched_backupCreate_Path: "Path (sched_backupCreate s bs uk ep) = sched_path bs ep"
  by (simp add: sched_backupCreate_def)

lemma sched_backupCreate_Comment:
  "Comment (sched_backupCreate s bs uk ep)
     = ''Automatic backup for database '' @ Database.Name (Database bs) @ '' at '' @ fmt_v_int ep"
  by (simp add: sched_backupCreate_def)

lemma sched_path_resolved7: "sched_path resolved7 443820 = ''bk/443820/crm.sql''"
  by (simp add: sched_path_def resolved7_def setting7_def fmt_443820 ReplaceAll.simps)

lemma sched_path_resolved42: "sched_path resolved42 443820 = ''prod-shop-443820.sql''"
  by (simp add: sched_path_def resolved42_def setting42_def db42_def fmt_443820)

lemma bucket_unix_tuesday_0317: "Time_Unix (Time_Truncate (Time_UTC tuesday_0317) time_Hour) = 442800"
  using run_t_tuesday_0317 by (simp add: run_t_def Time_Unix_def)

lemma spec_path_resolved7: "spec_path resolved7 tuesday_0317 = ''bk/442800/crm.sql''"
  by (simp add: spec_path_def bucket_unix_tuesday_0317 resolved7_def setting7_def fmt_442800
      ReplaceAll.simps)

lemma spec_path_resolved42: "spec_path resolved42 tuesday_0317 = ''prod-shop-442800.sql''"
  by (simp add: spec_path_def bucket_unix_tuesday_0317 resolved42_def setting42_def db42_def
      fmt_442800)

lemma find_store0_at:
  "mem_FindBackupSettingsMatch \<lparr> BackupSettingsMatch.Hour = 3, DayOfWeek = 2 \<rparr> (store0\<lparr> ms_now := t \<rparr>)
     = (Returns ([setting99, setting42, setting7], None), store0\<lparr> ms_now := t \<rparr>)"
  by (simp add: mem_FindBackupSettingsMatch_def spec_FindBackupSettingsMatch_def store0_def
      setting99_def setting42_def setting7_def)

lemma compose_store0_at:
  "mem_ComposeDatabaseByFind \<lparr> DatabaseFind.ID = Some 99 \<rparr> (store0\<lparr> ms_now := t \<rparr>)
     = (Returns (Inl (Error ENOTFOUND ''database not found'')), store0\<lparr> ms_now := t \<rparr>)"
  "mem_ComposeDatabaseByFind \<lparr> DatabaseFind.ID = Some 42 \<rparr> (store0\<lparr> ms_now := t \<rparr>)
     = (Returns (Inr db42), store0\<lparr> ms_now := t \<rparr>)"
  "mem_ComposeDatabaseByFind \<lparr> DatabaseFind.ID = Some 7 \<rparr> (store0\<lparr> ms_now := t \<rparr>)
     = (Returns (Inr db7), store0\<lparr> ms_now := t \<rparr>)"
  by (simp_all add: mem_ComposeDatabaseByFind_def mem_resolve_def store0_def db42_def db7_def)

lemma range_list_store0_at:
  "range_list mem_runner uk ep [setting99, setting42, setting7] (store0\<lparr> ms_now := t \<rparr>)
     = (\<lparr> panicked = None,
           logged = [FailedToGetDatabase 3 99 (Error ENOTFOUND ''database not found'')],
           launched = [(resolved42, uk, ep), (resolved7, uk, ep)] \<rparr>, store0\<lparr> ms_now := t \<rparr>)"
  by (simp add: mem_runner_sel setting_ids compose_store0_at resolved42_def resolved7_def)

lemma Run_tick_store0_at:
  assumes "run_match (run_t t) = \<lparr> BackupSettingsMatch.Hour = 3, DayOfWeek = 2 \<rparr>"
  shows "Run_tick mem_runner (store0\<lparr> ms_now := t \<rparr>)
     = (([FailedToGetDatabase 3 99 (Error ENOTFOUND ''database not found'')],
         [(resolved42, run_uniqueKey (run_t t), run_epoch t),
          (resolved7, run_uniqueKey (run_t t), run_epoch t)]), store0\<lparr> ms_now := t \<rparr>)"
  by (simp add: Run_tick_def mem_runner_sel assms find_store0_at range_list_store0_at
      del: range_list.simps)

lemma run_t_later_0317: "run_t later_0317 = \<lparr> unix_nano = 442800 * 1000000000, zone_offset = 0 \<rparr>"
  by (simp add: run_t_def Time_Truncate_def Time_UTC_def time_Hour_def unixToInternal_def later_0317_def)

lemma run_t_later_0359: "run_t later_0359 = \<lparr> unix_nano = 442800 * 1000000000, zone_offset = 0 \<rparr>"
  by (simp add: run_t_def Time_Truncate_def Time_UTC_def time_Hour_def unixToInternal_def later_0359_def)

lemma run_match_442800:
  "run_match \<lparr> unix_nano = 442800 * 1000000000, zone_offset = 0 \<rparr>
     = \<lparr> BackupSettingsMatch.Hour = 3, DayOfWeek = 2 \<rparr>"
  by (simp add: run_match_def Time_Hour_def Time_Weekday_def Time_Unix_def)

lemma run_uniqueKey_442800:
  "run_uniqueKey \<lparr> unix_nano = 442800 * 1000000000, zone_offset = 0 \<rparr> = ''442800''"
  by (simp add: run_uniqueKey_def Time_Unix_def fmt_442800)

lemma Run_tick_store_0317:
  "Run_tick mem_runner store_0317
     = (([FailedToGetDatabase 3 99 (Error ENOTFOUND ''database not found'')],
         [(resolved42, ''442800'', 443820), (resolved7, ''442800'', 443820)]), store_0317)"
proof -
  have e: "run_epoch later_0317 = 443820"
    by (simp add: run_epoch_Unix Time_Unix_def later_0317_def)
  have m: "run_match (run_t later_0317) = \<lparr> BackupSettingsMatch.Hour = 3, DayOfWeek = 2 \<rparr>"
    by (simp only: run_t_later_0317 run_match_442800)
  have k: "run_uniqueKey (run_t later_0317) = ''442800''"
    by (simp only: run_t_later_0317 run_uniqueKey_442800)
  show ?thesis
    unfolding store_0317_def by (simp only: Run_tick_store0_at [OF m] k e)
qed

lemma Run_tick_store_0359:
  "Run_tick mem_runner store_0359
     = (([FailedToGetDatabase 3 99 (Error ENOTFOUND ''database not found'')],
         [(resolved42, ''442800'', 446399), (resolved7, ''442800'', 446399)]), store_0359)"
proof -
  have e: "run_epoch later_0359 = 446399"
    by (simp add: run_epoch_Unix Time_Unix_def later_0359_def)
  have m: "run_match (run_t later_0359) = \<lparr> BackupSettingsMatch.Hour = 3, DayOfWeek = 2 \<rparr>"
    by (simp only: run_t_later_0359 run_match_442800)
  have k: "run_uniqueKey (run_t later_0359) = ''442800''"
    by (simp only: run_t_later_0359 run_uniqueKey_442800)
  show ?thesis
    unfolding store_0359_def by (simp only: Run_tick_store0_at [OF m] k e)
qed

lemma fmt_446399: "fmt_v_int 446399 = ''446399''"
  by (simp add: fmt_v_int_def digits_lt10 digits_ge10 digit_char_def)

lemma sched_path_resolved42_0359: "sched_path resolved42 446399 = ''prod-shop-446399.sql''"
  by (simp add: sched_path_def resolved42_def setting42_def db42_def fmt_446399)

lemma Comment_resolved42:
  "Comment (sched_backupCreate mem_runner resolved42 ''442800'' 443820)
     = ''Automatic backup for database shop at 443820''"
  "Comment (sched_backupCreate mem_runner resolved42 ''442800'' 446399)
     = ''Automatic backup for database shop at 446399''"
  by (simp_all add: sched_backupCreate_Comment resolved42_def db42_def fmt_443820 fmt_446399)

lemma fmt_1: "fmt_v_int 1 = ''1''"
  by (simp add: fmt_v_int_def digits_lt10 digit_char_def)

lemma resolved42_sel:
  "BackupSetting.ID resolved42 = 1"
  "BackupSetting.DatabaseId resolved42 = 42"
  "Database.ID (Database resolved42) = 42"
  "Database.Name (Database resolved42) = ''shop''"
  "Database.InstanceId (Database resolved42) = 5"
  "Instance.EnvironmentId (Instance (Database resolved42)) = 3"
  by (simp_all add: resolved42_def setting42_def db42_def)

lemma sched_key42: "sched_key resolved42 ''442800'' = key42"
  by (simp add: sched_key_def resolved42_def setting42_def fmt_42 key42_def)

lemma sched_backupCreate42:
  "sched_backupCreate mem_runner resolved42 ''442800'' 443820 = backupCreate42"
  by (simp add: sched_backupCreate_def sched_key42 sched_path_resolved42 mem_runner_sel
      backupCreate42_def resolved42_sel fmt_443820)

lemma sched_pipelineCreate42: "sched_pipelineCreate key42 backupCreate42 = pipelineCreate42"
  by (simp add: sched_pipelineCreate_def pipelineCreate42_def backupCreate42_def)

lemma sched_stageCreate42:
  "sched_stageCreate key42 resolved42 backupCreate42 \<lparr> Pipeline.ID = 1 \<rparr> = stageCreate42"
  by (simp add: sched_stageCreate_def stageCreate42_def backupCreate42_def resolved42_sel)

lemma sched_taskCreate42:
  "sched_taskCreate key42 resolved42 backupCreate42 \<lparr> Pipeline.ID = 1 \<rparr> \<lparr> Stage.ID = 1 \<rparr>
     payload_backup1 = taskCreate42"
  by (simp add: sched_taskCreate_def taskCreate42_def backupCreate42_def resolved42_sel)

lemma mem_json_Marshal_1: "mem_json_Marshal \<lparr> BackupID = 1 \<rparr> = Inr payload_backup1"
  by (simp add: mem_json_Marshal_def fmt_1 payload_backup1_def)

lemma mem_CreateBackup_store0:
  "mem_CreateBackup backupCreate42 store0
     = (Inr \<lparr> Backup.ID = 1 \<rparr>, store0\<lparr> ms_backups := [backupCreate42] \<rparr>)"
  by (simp add: mem_CreateBackup_def store0_def)

lemma mem_CreateBackup_store_done42:
  "mem_CreateBackup backupCreate42 store_done42 = (Inl (Error ECONFLICT ''backup exists''), store_done42)"
  by (simp add: mem_CreateBackup_def store_done42_def store0_def)

lemma mem_CreateBackup_store_backup_fails:
  "mem_CreateBackup backupCreate42 store_backup_fails = (Inl disk_full, store_backup_fails)"
  by (simp add: mem_CreateBackup_def store_backup_fails_def)

lemma store0_sel:
  "ms_backups store0 = []" "ms_backup_err store0 = None"
  "ms_pipelines store0 = []" "ms_pipeline_err store0 = None"
  "ms_stages store0 = []" "ms_stage_err store0 = None"
  "ms_tasks store0 = []" "ms_task_err store0 = None"
  by (simp_all add: store0_def)

lemma attempt_store0:
  "scheduleBackupTask mem_runner resolved42 ''442800'' 443820 store0 = (None, store_done42)"
  by (simp add: scheduleBackupTask_def sched_key42 sched_backupCreate42 mem_runner_sel
      mem_CreateBackup_store0 mem_json_Marshal_1 sched_pipelineCreate42 sched_stageCreate42
      sched_taskCreate42 mem_CreatePipeline_def mem_CreateStage_def mem_CreateTask_def
      store_done42_def store0_sel)

lemma attempt_store_done42:
  "scheduleBackupTask mem_runner resolved42 ''442800'' 443820 store_done42 = (None, store_done42)"
  by (simp add: scheduleBackupTask_def sched_key42 sched_backupCreate42 mem_runner_sel
      mem_CreateBackup_store_done42)

lemma attempt_store_backup_fails:
  "scheduleBackupTask mem_runner resolved42 ''442800'' 443820 store_backup_fails
     = (Some (FailedToCreateBackup disk_full), store_backup_fails)"
  by (simp add: scheduleBackupTask_def sched_key42 sched_backupCreate42 mem_runner_sel
      mem_CreateBackup_store_backup_fails disk_full_def)


lemma mem_frame_backups:
  "ms_backups (snd (mem_CreatePipeline pc x)) = ms_backups x"
  "ms_backups (snd (mem_CreateStage sc x)) = ms_backups x"
  "ms_backups (snd (mem_CreateTask tc x)) = ms_backups x"
  by (simp_all add: mem_CreatePipeline_def mem_CreateStage_def mem_CreateTask_def
      split: option.splits)

lemma mem_CreateBackup_fresh:
  "ms_backups x = [] \<Longrightarrow> ms_backup_err x = None \<Longrightarrow>
   mem_CreateBackup c x = (Inr \<lparr> Backup.ID = 1 \<rparr>, x\<lparr> ms_backups := [c] \<rparr>)"
  by (simp add: mem_CreateBackup_def)

lemma mem_CreatePipeline_fresh:
  "ms_pipelines x = [] \<Longrightarrow> ms_pipeline_err x = None \<Longrightarrow>
   mem_CreatePipeline c x = (Inr \<lparr> Pipeline.ID = 1 \<rparr>, x\<lparr> ms_pipelines := [c] \<rparr>)"
  by (simp add: mem_CreatePipeline_def)

lemma mem_CreateStage_fresh:
  "ms_stages x = [] \<Longrightarrow> ms_stage_err x = None \<Longrightarrow>
   mem_CreateStage c x = (Inr \<lparr> Stage.ID = 1 \<rparr>, x\<lparr> ms_stages := [c] \<rparr>)"
  by (simp add: mem_CreateStage_def)

lemma mem_CreateTask_fresh:
  "ms_tasks x = [] \<Longrightarrow> ms_task_err x = None \<Longrightarrow>
   mem_CreateTask c x = (Inr \<lparr> Task.ID = 1 \<rparr>, x\<lparr> ms_tasks := [c] \<rparr>)"
  by (simp add: mem_CreateTask_def)

lemma store_pipeline_fails_sel:
  "ms_backups store_pipeline_fails = []" "ms_backup_err store_pipeline_fails = None"
  "ms_pipeline_err store_pipeline_fails = Some disk_full"
  by (simp_all add: store_pipeline_fails_def store0_sel)

lemma store_stage_fails_sel:
  "ms_backups store_stage_fails = []" "ms_backup_err store_stage_fails = None"
  "ms_pipelines store_stage_fails = []" "ms_pipeline_err store_stage_fails = None"
  "ms_stage_err store_stage_fails = Some disk_full"
  by (simp_all add: store_stage_fails_def store0_sel)

lemma store_task_fails_sel:
  "ms_backups store_task_fails = []" "ms_backup_err store_task_fails = None"
  "ms_pipelines store_task_fails = []" "ms_pipeline_err store_task_fails = None"
  "ms_stages store_task_fails = []" "ms_stage_err store_task_fails = None"
  "ms_task_err store_task_fails = Some disk_full"
  by (simp_all add: store_task_fails_def store0_sel)

lemma mem_json_Marshal_backup1:
  "json_Marshal mem_runner \<lparr> BackupID = Backup.ID \<lparr> Backup.ID = 1 \<rparr> \<rparr> = Inr payload_backup1"
  by (simp add: mem_runner_sel mem_json_Marshal_1)

lemma range_list_append:
  "range_list s uk ep (xs @ ys) w =
     (case range_list s uk ep xs w of
        (r1, w1) \<Rightarrow>
          (case panicked r1 of
             Some p \<Rightarrow> (r1, w1)
           | None \<Rightarrow>
               (case range_list s uk ep ys w1 of
                  (r2, w2) \<Rightarrow>
                    (\<lparr> panicked = panicked r2, logged = logged r1 @ logged r2,
                       launched = launched r1 @ launched r2 \<rparr>, w2))))"
proof (induction xs arbitrary: w)
  case Nil
  show ?case by (simp split: prod.splits)
next
  case (Cons b xs)
  show ?case
  proof (cases "ComposeDatabaseByFind s \<lparr> DatabaseFind.ID = Some (BackupSetting.DatabaseId b) \<rparr> w")
    case (Pair o1 x1)
    show ?thesis
    proof (cases o1)
      case (Panics r)
      with Pair show ?thesis by simp
    next
      case (Returns res)
      show ?thesis
      proof (cases res)
        case (Inl err)
        with Pair Returns Cons.IH [of x1] show ?thesis
          by (simp split: prod.splits option.splits)
      next
        case (Inr database)
        with Pair Returns Cons.IH [of x1] show ?thesis
          by (simp split: prod.splits option.splits)
      qed
    qed
  qed
qed

lemma range_list_pure:
  assumes "\<forall>f. ComposeDatabaseByFind s f w = (Returns (resolve f), w)"
  shows "range_list s uk ep list w =
           (\<lparr> panicked = None,
              logged = List.map_filter (log_of resolve) list,
              launched = List.map_filter (launch_of resolve uk ep) list \<rparr>, w)"
proof (induction list)
  case Nil
  show ?case by (simp add: List.map_filter_simps)
next
  case (Cons b list)
  from assms have c: "ComposeDatabaseByFind s \<lparr> DatabaseFind.ID = Some (BackupSetting.DatabaseId b) \<rparr> w
      = (Returns (resolve \<lparr> DatabaseFind.ID = Some (BackupSetting.DatabaseId b) \<rparr>), w)"
    by blast
  show ?case
    by (cases "resolve \<lparr> DatabaseFind.ID = Some (BackupSetting.DatabaseId b) \<rparr>")
       (simp_all add: c Cons.IH List.map_filter_simps launch_of_def log_of_def)
qed


lemma map_filter_member:
  "x \<in> set xs \<Longrightarrow> f x = Some y \<Longrightarrow> y \<in> set (List.map_filter f xs)"
  by (force simp: List.map_filter_def)

lemma Run_tick_pure:
  assumes "time_Now s v = (now1, v1)" and "time_Now s v1 = (now2, v2)"
    and "FindBackupSettingsMatch s (run_match (run_t now1)) v2 = (Returns (list, err), v3)"
    and "\<forall>f. ComposeDatabaseByFind s f v3 = (Returns (resolve f), v3)"
  shows "Run_tick s v =
           (((case err of Some e \<Rightarrow> [FailedToRetrieveBackupSettingsMatch e] | None \<Rightarrow> [])
             @ List.map_filter (log_of resolve) list,
             List.map_filter (launch_of resolve (run_uniqueKey (run_t now1)) (run_epoch now2)) list),
            v3)"
  using assms(1-3)
  by (simp add: Run_tick_def range_list_pure [OF assms(4)] del: range_list.simps)

lemma resolve_store0:
  "mem_resolve store0 \<lparr> DatabaseFind.ID = Some 99 \<rparr> = Inl (Error ENOTFOUND ''database not found'')"
  "mem_resolve store0 \<lparr> DatabaseFind.ID = Some 42 \<rparr> = Inr db42"
  "mem_resolve store0 \<lparr> DatabaseFind.ID = Some 7 \<rparr> = Inr db7"
  by (simp_all add: mem_resolve_def store0_def db42_def db7_def)

lemma range_list_store0_single:
  "range_list mem_runner uk ep [setting42] store0
     = (\<lparr> panicked = None, logged = [], launched = [(resolved42, uk, ep)] \<rparr>, store0)"
  "range_list mem_runner uk ep [setting7] store0
     = (\<lparr> panicked = None, logged = [], launched = [(resolved7, uk, ep)] \<rparr>, store0)"
  by (simp_all add: mem_runner_sel setting_ids compose_store0 resolved42_def resolved7_def)


lemma Run_loop_Suc:
  "Run_loop (Suc n) s w =
     (Ticked (fst (fst (Run_tick s w))) (snd (fst (Run_tick s w)))
      # Slept (backupRunnerInterval s)
      # fst (Run_loop n s (time_Sleep s (backupRunnerInterval s) (snd (Run_tick s w)))),
      snd (Run_loop n s (time_Sleep s (backupRunnerInterval s) (snd (Run_tick s w)))))"
  by (simp split: prod.splits)

lemma Run_loop_length: "length (fst (Run_loop n s w)) = 2 * n"
proof (induction n arbitrary: w)
  case 0
  show ?case by simp
next
  case (Suc n)
  show ?case by (simp only: Run_loop_Suc fst_conv list.size Suc.IH) simp
qed



lemma run_t_Hour: "Time_Hour (run_t now) = utc_hour_index now mod 24"
proof -
  have "(3600 * utc_hour_index now) mod 86400 = 3600 * (utc_hour_index now mod 24)"
    using mult_mod_right [of 3600 "utc_hour_index now" 24] by simp
  then show ?thesis by (simp add: Time_Hour_def run_t_Unix run_t_zone)
qed

lemma run_t_Weekday: "Time_Weekday (run_t now) = (utc_hour_index now div 24 + 4) mod 7"
proof -
  have "(3600 * utc_hour_index now) div 86400 = utc_hour_index now div 24"
    using div_mult_mult1 [of 3600 "utc_hour_index now" 24] by simp
  then show ?thesis by (simp add: Time_Weekday_def run_t_Unix run_t_zone)
qed

lemma run_t_bounds:
  "unix_nano (run_t now) \<le> unix_nano now \<and> unix_nano now < unix_nano (run_t now) + time_Hour"
proof -
  have pos: "0 < time_Hour" by (simp add: time_Hour_def)
  have "unix_nano (run_t now) = unix_nano now - unix_nano now mod time_Hour"
    by (simp add: run_t_unix_nano minus_mod_eq_mult_div)
  moreover have "0 \<le> unix_nano now mod time_Hour" and "unix_nano now mod time_Hour < time_Hour"
    using pos by simp_all
  ultimately show ?thesis by linarith
qed

lemma run_t_dvd: "time_Hour dvd unix_nano (run_t now)"
  by (simp add: run_t_unix_nano)

lemma spec_FindBackupSettingsMatch_set:
  "bs \<in> set (spec_FindBackupSettingsMatch all match) \<longleftrightarrow>
     bs \<in> set all \<and> BackupSetting.Hour bs = BackupSettingsMatch.Hour match
       \<and> BackupSetting.DayOfWeek bs = BackupSettingsMatch.DayOfWeek match"
  by (auto simp: spec_FindBackupSettingsMatch_def)

lemma run_match_sel:
  "BackupSettingsMatch.Hour (run_match t) = Time_Hour t"
  "BackupSettingsMatch.DayOfWeek (run_match t) = Time_Weekday t"
  by (simp_all add: run_match_def)

lemma Run_tick_no_error:
  assumes "time_Now s w = (now1, w1)" and "time_Now s w1 = (now2, w2)"
    and "FindBackupSettingsMatch s (run_match (run_t now1)) w2 = (Returns (list, None), w3)"
  shows "Run_tick s w =
           (case range_list s (run_uniqueKey (run_t now1)) (run_epoch now2) list w3 of
              (res, w4) \<Rightarrow>
                ((logged res @ (case panicked res of Some r \<Rightarrow> [PanicRecover r] | None \<Rightarrow> []),
                  launched res), w4))"
  using assms by (simp add: Run_tick_def del: range_list.simps)

lemma scan_rows_Inr: "scan_rows s rows = Inr list \<Longrightarrow> list = rows"
proof (induction rows arbitrary: list)
  case Nil
  then show ?case by simp
next
  case (Cons row rows)
  then show ?case by (auto split: option.splits sum.splits)
qed

lemma findProjectList_Inr:
  "findProjectList s fnd = Inr list \<Longrightarrow> list = filter (row_matches (db s) fnd) (project (db s))"
  by (auto simp: findProjectList_def split: option.splits sum.splits dest: scan_rows_Inr)

lemma row_matches_iff:
  "row_matches d fnd p \<longleftrightarrow>
     (ProjectFind.ID fnd = None \<or> ProjectFind.ID fnd = Some (Project.ID p)) \<and>
     (ProjectFind.RowStatus fnd = None \<or> ProjectFind.RowStatus fnd = Some (Project.RowStatus p)) \<and>
     (ProjectFind.WorkspaceId fnd = None \<or> ProjectFind.WorkspaceId fnd = Some (Project.WorkspaceId p)) \<and>
     (PrincipalId fnd = None \<or>
        (\<exists>v. PrincipalId fnd = Some v \<and> (Project.ID p, v) \<in> set (project_member d)))"
  by (cases "ProjectFind.ID fnd"; cases "ProjectFind.RowStatus fnd";
      cases "ProjectFind.WorkspaceId fnd"; cases "PrincipalId fnd")
     (force simp: row_matches_def where_clause_def)+

lemma project_service0_sel:
  "BeginTx_err (db project_service0) = None"
  "QueryContext_err (db project_service0) = None"
  "Scan_err (db project_service0) p = None"
  "rows_Err (db project_service0) = None"
  "project (db project_service0) = [project1, project2]"
  "fmt_v_find project_service0 f = ''&{...}''"
  by (simp_all add: project_service0_def)

lemma row_matches_workspace:
  "row_matches (db project_service0) (find_workspace 1) project1"
  "row_matches (db project_service0) (find_workspace 1) project2"
  "\<not> row_matches (db project_service0) (find_workspace 2) project1"
  "\<not> row_matches (db project_service0) (find_workspace 2) project2"
  by (simp_all add: row_matches_def where_clause_def find_workspace_def project1_def project2_def)

lemma matches_workspace:
  "filter (row_matches (db project_service0) (find_workspace 1)) [project1, project2]
     = [project1, project2]"
  "filter (row_matches (db project_service0) (find_workspace 2)) [project1, project2] = []"
  by (simp_all add: row_matches_workspace)

lemma scan_rows_service0: "scan_rows project_service0 rows = Inr rows"
  by (induction rows) (simp_all add: project_service0_sel)

lemma findProjectList_service0:
  "findProjectList project_service0 (find_workspace 1) = Inr [project1, project2]"
  "findProjectList project_service0 (find_workspace 2) = Inr []"
  by (simp_all add: findProjectList_def project_service0_sel row_matches_workspace
      scan_rows_service0)

lemma fmt_2: "fmt_v_int 2 = ''2''"
  by (simp add: fmt_v_int_def digits_lt10 digit_char_def)

lemma FindProject_service0:
  "FindProject project_service0 (find_workspace 1)
     = (Inr project1, [''found mulitple projects: 2, expect 1''])"
  "FindProject project_service0 (find_workspace 2)
     = (Inl (Error ENOTFOUND ''project not found: &{...}''), [])"
  by (simp_all add: FindProject_def project_service0_sel findProjectList_service0 fmt_2)

lemma ReplaceAll_join:
  "old \<noteq> [] \<Longrightarrow> segs \<noteq> [] \<Longrightarrow>
   \<forall>seg \<in> set (butlast segs). \<not> occurs old (seg @ butlast old) \<Longrightarrow>
   \<not> occurs old (last segs) \<Longrightarrow>
   ReplaceAll (join old segs) old new = join new segs"
proof (induction old segs rule: join.induct)
  case (1 sep)
  then show ?case by simp
next
  case (2 sep seg)
  then show ?case by (simp add: ReplaceAll_no_occurrence)
next
  case (3 sep seg seg' segs)
  from "3.prems"(3) have a: "\<not> occurs sep (seg @ butlast sep)"
    and b: "\<forall>x \<in> set (butlast (seg' # segs)). \<not> occurs sep (x @ butlast sep)"
    by simp_all
  from "3.prems"(4) have c: "\<not> occurs sep (last (seg' # segs))" by simp
  have "ReplaceAll (seg @ sep @ join sep (seg' # segs)) sep new
          = seg @ new @ ReplaceAll (join sep (seg' # segs)) sep new"
    using "3.prems"(1) a by (rule ReplaceAll_first)
  also have "ReplaceAll (join sep (seg' # segs)) sep new = join new (seg' # segs)"
    using "3.prems"(1) _ b c by (rule "3.IH") simp
  finally show ?case by simp
qed

lemma join_nonempty_sep: "sep \<noteq> [] \<Longrightarrow> join sep (seg # seg' # segs) \<noteq> []"
  by simp





section \<open>The claims\<close>

text \<open>
  C2. Two readings of the clock in the same UTC hour give the same bucket \<open>t\<close> and,
  for every setting (so for every database id), the same backup key; two readings in
  different hours give different keys, and so do two readings whose buckets fall on
  different days of the week. The key is \<open>auto-backup-\<close>, the Unix seconds of the
  bucket in decimal, a dash, and the database id in decimal; the Unix seconds of the
  bucket are those of the start of the hour.
\<close>

theorem time_bucket_determinism:
  "(utc_hour_index now1 = utc_hour_index now2 \<longrightarrow>
      run_t now1 = run_t now2 \<and>
      sched_key bs (run_uniqueKey (run_t now1)) = sched_key bs (run_uniqueKey (run_t now2))) \<and>
   (utc_hour_index now1 \<noteq> utc_hour_index now2 \<longrightarrow>
      sched_key bs (run_uniqueKey (run_t now1)) \<noteq> sched_key bs (run_uniqueKey (run_t now2))) \<and>
   (Time_Weekday (run_t now1) \<noteq> Time_Weekday (run_t now2) \<longrightarrow>
      sched_key bs (run_uniqueKey (run_t now1)) \<noteq> sched_key bs (run_uniqueKey (run_t now2))) \<and>
   sched_key bs (run_uniqueKey (run_t now1)) =
      ''auto-backup-'' @ fmt_v_int (Time_Unix (run_t now1)) @ ''-''
        @ fmt_v_int (BackupSetting.DatabaseId bs) \<and>
   Time_Unix (run_t now1) = 3600 * utc_hour_index now1"
proof (intro conjI impI)
  assume "utc_hour_index now1 = utc_hour_index now2"
  then show "run_t now1 = run_t now2" by (simp only: run_t_eq_iff)
next
  assume "utc_hour_index now1 = utc_hour_index now2"
  then show "sched_key bs (run_uniqueKey (run_t now1)) = sched_key bs (run_uniqueKey (run_t now2))"
    by (simp only: bucket_key_eq_iff)
next
  assume "utc_hour_index now1 \<noteq> utc_hour_index now2"
  then show "sched_key bs (run_uniqueKey (run_t now1)) \<noteq> sched_key bs (run_uniqueKey (run_t now2))"
    by (simp only: bucket_key_eq_iff not_False_eq_True)
next
  assume w: "Time_Weekday (run_t now1) \<noteq> Time_Weekday (run_t now2)"
  have "utc_hour_index now1 \<noteq> utc_hour_index now2"
  proof
    assume "utc_hour_index now1 = utc_hour_index now2"
    then have "run_t now1 = run_t now2" by (simp only: run_t_eq_iff)
    with w show False by simp
  qed
  then show "sched_key bs (run_uniqueKey (run_t now1)) \<noteq> sched_key bs (run_uniqueKey (run_t now2))"
    by (simp only: bucket_key_eq_iff not_False_eq_True)
next
  show "sched_key bs (run_uniqueKey (run_t now1)) =
      ''auto-backup-'' @ fmt_v_int (Time_Unix (run_t now1)) @ ''-''
        @ fmt_v_int (BackupSetting.DatabaseId bs)"
    by (simp add: sched_key_def run_uniqueKey_def)
next
  show "Time_Unix (run_t now1) = 3600 * utc_hour_index now1" by (rule run_t_Unix)
qed

theorem time_bucket_determinism_witness:
  "utc_hour_index tuesday_0317 = utc_hour_index later_0359 \<and>
   run_t tuesday_0317 = run_t later_0359 \<and>
   sched_key setting42 (run_uniqueKey (run_t tuesday_0317))
     = sched_key setting42 (run_uniqueKey (run_t later_0359)) \<and>
   utc_hour_index tuesday_0317 \<noteq> utc_hour_index next_0400 \<and>
   sched_key setting42 (run_uniqueKey (run_t tuesday_0317))
     \<noteq> sched_key setting42 (run_uniqueKey (run_t next_0400)) \<and>
   Time_Weekday (run_t tuesday_0317) \<noteq> Time_Weekday (run_t wednesday_0317) \<and>
   sched_key setting42 (run_uniqueKey (run_t tuesday_0317))
     \<noteq> sched_key setting42 (run_uniqueKey (run_t wednesday_0317)) \<and>
   sched_key setting42 (run_uniqueKey (run_t tuesday_0317)) = ''auto-backup-442800-42''"
proof -
  have h1: "utc_hour_index tuesday_0317 = utc_hour_index later_0359"
    by (simp add: utc_hour_index_def Time_Unix_def tuesday_0317_def later_0359_def)
  have h2: "utc_hour_index tuesday_0317 \<noteq> utc_hour_index next_0400"
    by (simp add: utc_hour_index_def Time_Unix_def tuesday_0317_def next_0400_def)
  have h3: "Time_Weekday (run_t tuesday_0317) \<noteq> Time_Weekday (run_t wednesday_0317)"
    by (simp add: Time_Weekday_def Time_Unix_def run_t_def Time_Truncate_def Time_UTC_def
        time_Hour_def unixToInternal_def tuesday_0317_def wednesday_0317_def)
  have u: "Time_Unix (run_t tuesday_0317) = 442800"
    by (simp add: run_t_tuesday_0317 Time_Unix_def)
  have d: "BackupSetting.DatabaseId setting42 = 42" by (simp add: setting42_def)
  note a = time_bucket_determinism [of tuesday_0317 later_0359 setting42]
  note b = time_bucket_determinism [of tuesday_0317 next_0400 setting42]
  note c = time_bucket_determinism [of tuesday_0317 wednesday_0317 setting42]
  from a h1 have "run_t tuesday_0317 = run_t later_0359 \<and>
      sched_key setting42 (run_uniqueKey (run_t tuesday_0317))
        = sched_key setting42 (run_uniqueKey (run_t later_0359))" by blast
  moreover from b h2 have "sched_key setting42 (run_uniqueKey (run_t tuesday_0317))
     \<noteq> sched_key setting42 (run_uniqueKey (run_t next_0400))" by blast
  moreover from c h3 have "sched_key setting42 (run_uniqueKey (run_t tuesday_0317))
     \<noteq> sched_key setting42 (run_uniqueKey (run_t wednesday_0317))" by blast
  moreover from a have "sched_key setting42 (run_uniqueKey (run_t tuesday_0317))
      = ''auto-backup-'' @ fmt_v_int (Time_Unix (run_t tuesday_0317)) @ ''-''
        @ fmt_v_int (BackupSetting.DatabaseId setting42)" by blast
  then have "sched_key setting42 (run_uniqueKey (run_t tuesday_0317)) = ''auto-backup-442800-42''"
    by (simp add: u d fmt_442800 fmt_42)
  ultimately show ?thesis using h1 h2 h3 by blast
qed

text \<open>
  C3, as amended. Every attempt a tick launches gets as \<open>epoch\<close> the Unix seconds of
  the tick's second reading of the clock (\<^verbatim>\<open>time.Now().UTC().Unix()\<close>, not truncated to
  the hour). The path handed to the store is then: for a non-empty template,
  \<^verbatim>\<open>strings.ReplaceAll\<close> of the template, that is, a template made of segments with the
  placeholder \<^verbatim>\<open>{{TIME}}\<close> between them, where no placeholder starts inside a segment,
  becomes the same segments with the decimal epoch between them; for the empty template,
  environment name, database name and epoch, joined by dashes, with the suffix
  \<open>.sql\<close>.
\<close>

theorem path_template_substitution:
  assumes "time_Now s w = (now1, w1)" and "time_Now s w1 = (now2, w2)"
    and "(bs, uniqueKey, epoch) \<in> set (snd (fst (Run_tick s w)))"
  shows "epoch = Time_Unix now2 \<and>
    (PathTemplate bs \<noteq> [] \<longrightarrow>
       Path (sched_backupCreate s bs uniqueKey epoch)
         = ReplaceAll (PathTemplate bs) ''{{TIME}}'' (fmt_v_int (Time_Unix now2))) \<and>
    (PathTemplate bs \<noteq> [] \<and> PathTemplate bs = join ''{{TIME}}'' segs \<and> segs \<noteq> [] \<and>
       (\<forall>seg \<in> set (butlast segs). \<not> occurs ''{{TIME}}'' (seg @ ''{{TIME}'')) \<and>
       \<not> occurs ''{{TIME}}'' (last segs) \<longrightarrow>
       Path (sched_backupCreate s bs uniqueKey epoch) = join (fmt_v_int (Time_Unix now2)) segs) \<and>
    (PathTemplate bs = [] \<longrightarrow>
       Path (sched_backupCreate s bs uniqueKey epoch)
         = Environment.Name (Environment (Instance (Database bs))) @ ''-''
             @ Database.Name (Database bs) @ ''-'' @ fmt_v_int (Time_Unix now2) @ ''.sql'')"
proof -
  from assms have e: "epoch = Time_Unix now2"
    using Run_tick_launched [of s w now1 w1 now2 w2 bs uniqueKey epoch]
    by (simp add: run_epoch_Unix)
  have p: "Path (sched_backupCreate s bs uniqueKey epoch)
         = ReplaceAll (PathTemplate bs) ''{{TIME}}'' (fmt_v_int (Time_Unix now2))"
    if "PathTemplate bs \<noteq> []"
    using that by (simp add: sched_backupCreate_Path sched_path_def e)
  have bl: "butlast ''{{TIME}}'' = ''{{TIME}''" by simp
  show ?thesis
  proof (intro conjI impI)
    show "epoch = Time_Unix now2" by (rule e)
  next
    assume "PathTemplate bs \<noteq> []"
    then show "Path (sched_backupCreate s bs uniqueKey epoch)
         = ReplaceAll (PathTemplate bs) ''{{TIME}}'' (fmt_v_int (Time_Unix now2))"
      by (rule p)
  next
    assume a: "PathTemplate bs \<noteq> [] \<and> PathTemplate bs = join ''{{TIME}}'' segs \<and> segs \<noteq> [] \<and>
       (\<forall>seg \<in> set (butlast segs). \<not> occurs ''{{TIME}}'' (seg @ ''{{TIME}'')) \<and>
       \<not> occurs ''{{TIME}}'' (last segs)"
    then have ne: "PathTemplate bs \<noteq> []" and t: "PathTemplate bs = join ''{{TIME}}'' segs"
      and sn: "segs \<noteq> []"
      and o': "\<forall>seg \<in> set (butlast segs). \<not> occurs ''{{TIME}}'' (seg @ ''{{TIME}'')"
      and l: "\<not> occurs ''{{TIME}}'' (last segs)"
      by blast+
    from o' have o: "\<forall>seg \<in> set (butlast segs). \<not> occurs ''{{TIME}}'' (seg @ butlast ''{{TIME}}'')"
      by (simp only: bl)
    have "Path (sched_backupCreate s bs uniqueKey epoch)
         = ReplaceAll (PathTemplate bs) ''{{TIME}}'' (fmt_v_int (Time_Unix now2))"
      using ne by (rule p)
    also have "\<dots> = ReplaceAll (join ''{{TIME}}'' segs) ''{{TIME}}'' (fmt_v_int (Time_Unix now2))"
      by (simp only: t)
    also have "\<dots> = join (fmt_v_int (Time_Unix now2)) segs"
      using _ sn o l by (rule ReplaceAll_join) simp
    finally show "Path (sched_backupCreate s bs uniqueKey epoch)
         = join (fmt_v_int (Time_Unix now2)) segs" .
  next
    assume "PathTemplate bs = []"
    then show "Path (sched_backupCreate s bs uniqueKey epoch)
         = Environment.Name (Environment (Instance (Database bs))) @ ''-''
             @ Database.Name (Database bs) @ ''-'' @ fmt_v_int (Time_Unix now2) @ ''.sql''"
      by (simp add: sched_backupCreate_Path sched_path_def e)
  qed
qed

theorem path_template_substitution_witness:
  "time_Now mem_runner store0 = (tuesday_0317, store0) \<and>
   (resolved7, ''442800'', 443820) \<in> set (snd (fst (Run_tick mem_runner store0))) \<and>
   (resolved42, ''442800'', 443820) \<in> set (snd (fst (Run_tick mem_runner store0))) \<and>
   Time_Unix tuesday_0317 = 443820 \<and>
   PathTemplate resolved7 \<noteq> [] \<and>
   PathTemplate resolved7 = join ''{{TIME}}'' [''bk/'', ''/crm.sql''] \<and>
   butlast [''bk/'', ''/crm.sql''] = [''bk/''] \<and>
   \<not> occurs ''{{TIME}}'' (''bk/'' @ ''{{TIME}'') \<and>
   \<not> occurs ''{{TIME}}'' (last [''bk/'', ''/crm.sql'']) \<and>
   Path (sched_backupCreate mem_runner resolved7 ''442800'' 443820) = ''bk/443820/crm.sql'' \<and>
   PathTemplate resolved42 = [] \<and>
   Path (sched_backupCreate mem_runner resolved42 ''442800'' 443820) = ''prod-shop-443820.sql''"
proof -
  have n: "time_Now mem_runner store0 = (tuesday_0317, store0)"
    by (simp add: mem_runner_sel ms_now_store0)
  have l7: "(resolved7, ''442800'', 443820) \<in> set (snd (fst (Run_tick mem_runner store0)))"
    and l42: "(resolved42, ''442800'', 443820) \<in> set (snd (fst (Run_tick mem_runner store0)))"
    by (simp_all add: Run_tick_store0)
  have u: "Time_Unix tuesday_0317 = 443820" by (simp add: Time_Unix_def tuesday_0317_def)
  have ne: "PathTemplate resolved7 \<noteq> []" by (simp add: resolved7_def setting7_def)
  have t7: "PathTemplate resolved7 = join ''{{TIME}}'' [''bk/'', ''/crm.sql'']"
    by (simp add: resolved7_def setting7_def)
  have sn: "[''bk/'', ''/crm.sql''] \<noteq> []" by simp
  have o1: "\<forall>seg \<in> set (butlast [''bk/'', ''/crm.sql'']). \<not> occurs ''{{TIME}}'' (seg @ ''{{TIME}'')"
    by simp
  have o2: "\<not> occurs ''{{TIME}}'' (last [''bk/'', ''/crm.sql''])" by simp
  have t42: "PathTemplate resolved42 = []" by (simp add: resolved42_def setting42_def)
  have d42: "Environment.Name (Environment (Instance (Database resolved42))) = ''prod''"
    "Database.Name (Database resolved42) = ''shop''"
    by (simp_all add: resolved42_def db42_def)
  from path_template_substitution [OF n n l7, THEN conjunct2, THEN conjunct2, THEN conjunct1,
      THEN mp, OF conjI, OF ne conjI, OF t7 conjI, OF sn conjI, OF o1 o2]
  have p7: "Path (sched_backupCreate mem_runner resolved7 ''442800'' 443820) = ''bk/443820/crm.sql''"
    by (simp add: u fmt_443820)
  from path_template_substitution [OF n n l42, THEN conjunct2, THEN conjunct2, THEN conjunct2,
      THEN mp, OF t42]
  have p42: "Path (sched_backupCreate mem_runner resolved42 ''442800'' 443820) = ''prod-shop-443820.sql''"
    by (simp add: d42 u fmt_443820)
  have bl: "butlast [''bk/'', ''/crm.sql''] = [''bk/'']" by simp
  have o0: "\<not> occurs ''{{TIME}}'' (''bk/'' @ ''{{TIME}'')" by simp
  from n l7 l42 u ne t7 bl o0 o2 p7 t42 p42 show ?thesis by (intro conjI)
qed

theorem path_template_substitution_counterexample:
  "snd (fst (Run_tick mem_runner store0))
     = [(resolved42, ''442800'', 443820), (resolved7, ''442800'', 443820)] \<and>
   ms_now store0 = tuesday_0317 \<and>
   Path (sched_backupCreate mem_runner resolved7 ''442800'' 443820) = ''bk/443820/crm.sql'' \<and>
   spec_path resolved7 tuesday_0317 = ''bk/442800/crm.sql'' \<and>
   Path (sched_backupCreate mem_runner resolved42 ''442800'' 443820) = ''prod-shop-443820.sql'' \<and>
   spec_path resolved42 tuesday_0317 = ''prod-shop-442800.sql'' \<and>
   Path (sched_backupCreate mem_runner resolved7 ''442800'' 443820) \<noteq> spec_path resolved7 tuesday_0317 \<and>
   Path (sched_backupCreate mem_runner resolved42 ''442800'' 443820) \<noteq> spec_path resolved42 tuesday_0317"
  by (simp add: Run_tick_store0 ms_now_store0 sched_backupCreate_Path sched_path_resolved7
      sched_path_resolved42 spec_path_resolved7 spec_path_resolved42)


text \<open>
  C4, as amended. The path and the comment of an attempt depend only on the setting with
  its database and on \<open>epoch\<close>, the Unix second of the launching tick's second reading
  of the clock (\<^verbatim>\<open>time.Now().UTC().Unix()\<close>, not truncated to the hour): two attempts
  for the same setting and database whose ticks read the same second have the same path
  and the same comment, whatever their bucket keys are, and their comments are equal
  only if the two ticks read the same second.
\<close>

theorem path_and_comment_per_epoch:
  assumes "time_Now s w = (a1, w1)" and "time_Now s w1 = (a2, w2)"
    and "(bs, uk, ep) \<in> set (snd (fst (Run_tick s w)))"
    and "time_Now s' v = (b1, v1)" and "time_Now s' v1 = (b2, v2)"
    and "(bs, uk', ep') \<in> set (snd (fst (Run_tick s' v)))"
  shows "(Time_Unix a2 = Time_Unix b2 \<longrightarrow>
            Path (sched_backupCreate s bs uk ep) = Path (sched_backupCreate s' bs uk' ep') \<and>
            Comment (sched_backupCreate s bs uk ep) = Comment (sched_backupCreate s' bs uk' ep')) \<and>
         (Comment (sched_backupCreate s bs uk ep) = Comment (sched_backupCreate s' bs uk' ep') \<longrightarrow>
            Time_Unix a2 = Time_Unix b2)"
proof -
  from assms(1-3) have e: "ep = Time_Unix a2"
    using Run_tick_launched [of s w a1 w1 a2 w2 bs uk ep] by (simp add: run_epoch_Unix)
  from assms(4-6) have e': "ep' = Time_Unix b2"
    using Run_tick_launched [of s' v b1 v1 b2 v2 bs uk' ep'] by (simp add: run_epoch_Unix)
  show ?thesis
    by (simp add: e e' sched_backupCreate_Path sched_backupCreate_Comment fmt_v_int_eq_iff)
qed

theorem path_and_comment_per_epoch_witness:
  "time_Now mem_runner store0 = (tuesday_0317, store0) \<and>
   (resolved42, ''442800'', 443820) \<in> set (snd (fst (Run_tick mem_runner store0))) \<and>
   time_Now mem_runner store_0317 = (later_0317, store_0317) \<and>
   (resolved42, ''442800'', 443820) \<in> set (snd (fst (Run_tick mem_runner store_0317))) \<and>
   tuesday_0317 \<noteq> later_0317 \<and>
   Time_Unix tuesday_0317 = Time_Unix later_0317 \<and>
   time_Now mem_runner store_0359 = (later_0359, store_0359) \<and>
   (resolved42, ''442800'', 446399) \<in> set (snd (fst (Run_tick mem_runner store_0359))) \<and>
   Time_Unix tuesday_0317 \<noteq> Time_Unix later_0359 \<and>
   Comment (sched_backupCreate mem_runner resolved42 ''442800'' 443820)
     \<noteq> Comment (sched_backupCreate mem_runner resolved42 ''442800'' 446399)"
proof -
  have n0: "time_Now mem_runner store0 = (tuesday_0317, store0)"
    by (simp add: mem_runner_sel ms_now_store0)
  have n1: "time_Now mem_runner store_0317 = (later_0317, store_0317)"
    by (simp add: mem_runner_sel store_0317_def)
  have n2: "time_Now mem_runner store_0359 = (later_0359, store_0359)"
    by (simp add: mem_runner_sel store_0359_def)
  have l0: "(resolved42, ''442800'', 443820) \<in> set (snd (fst (Run_tick mem_runner store0)))"
    by (simp add: Run_tick_store0)
  have l1: "(resolved42, ''442800'', 443820) \<in> set (snd (fst (Run_tick mem_runner store_0317)))"
    by (simp add: Run_tick_store_0317)
  have l2: "(resolved42, ''442800'', 446399) \<in> set (snd (fst (Run_tick mem_runner store_0359)))"
    by (simp add: Run_tick_store_0359)
  have d: "tuesday_0317 \<noteq> later_0317" by (simp add: tuesday_0317_def later_0317_def)
  have u1: "Time_Unix tuesday_0317 = Time_Unix later_0317"
    by (simp add: Time_Unix_def tuesday_0317_def later_0317_def)
  have u2: "Time_Unix tuesday_0317 \<noteq> Time_Unix later_0359"
    by (simp add: Time_Unix_def tuesday_0317_def later_0359_def)
  from path_and_comment_per_epoch [OF n0 n0 l0 n2 n2 l2] u2
  have c: "Comment (sched_backupCreate mem_runner resolved42 ''442800'' 443820)
     \<noteq> Comment (sched_backupCreate mem_runner resolved42 ''442800'' 446399)" by blast
  from n0 n1 n2 l0 l1 l2 d u1 u2 c show ?thesis by blast
qed

theorem path_and_comment_per_bucket_counterexample:
  "utc_hour_index tuesday_0317 = utc_hour_index later_0359 \<and>
   ms_now store0 = tuesday_0317 \<and> ms_now store_0359 = later_0359 \<and>
   snd (fst (Run_tick mem_runner store0))
     = [(resolved42, ''442800'', 443820), (resolved7, ''442800'', 443820)] \<and>
   snd (fst (Run_tick mem_runner store_0359))
     = [(resolved42, ''442800'', 446399), (resolved7, ''442800'', 446399)] \<and>
   Path (sched_backupCreate mem_runner resolved42 ''442800'' 443820) = ''prod-shop-443820.sql'' \<and>
   Path (sched_backupCreate mem_runner resolved42 ''442800'' 446399) = ''prod-shop-446399.sql'' \<and>
   Comment (sched_backupCreate mem_runner resolved42 ''442800'' 443820)
     = ''Automatic backup for database shop at 443820'' \<and>
   Comment (sched_backupCreate mem_runner resolved42 ''442800'' 446399)
     = ''Automatic backup for database shop at 446399''"
proof -
  have "utc_hour_index tuesday_0317 = utc_hour_index later_0359"
    by (simp add: utc_hour_index_def Time_Unix_def tuesday_0317_def later_0359_def)
  moreover have "ms_now store_0359 = later_0359" by (simp add: store_0359_def)
  ultimately show ?thesis
    by (simp add: ms_now_store0 Run_tick_store0 Run_tick_store_0359 sched_backupCreate_Path
        sched_path_resolved42 sched_path_resolved42_0359 Comment_resolved42)
qed

text \<open>
  C1. When \<^verbatim>\<open>CreateBackup\<close> fails, \<^verbatim>\<open>scheduleBackupTask\<close> stops there: the world
  it leaves is the one \<^verbatim>\<open>CreateBackup\<close> left. For the "already exists" code it
  returns nil, for any other error it returns an error. Whatever \<^verbatim>\<open>json.Marshal\<close>
  and the Pipeline, Stage and Task services would do makes no difference to the
  outcome: none of them is called, so no Pipeline, Stage or Task is created.
\<close>

theorem conflict_short_circuit:
  assumes "CreateBackup s (sched_backupCreate s bs uk ep) w = (Inl err, w1)"
  shows "(ErrorCode err = ECONFLICT \<longrightarrow> scheduleBackupTask s bs uk ep w = (None, w1)) \<and>
         (ErrorCode err \<noteq> ECONFLICT \<longrightarrow>
            scheduleBackupTask s bs uk ep w = (Some (FailedToCreateBackup err), w1)) \<and>
         scheduleBackupTask
           (s\<lparr> json_Marshal := jm, CreatePipeline := cp, CreateStage := cs, CreateTask := ct \<rparr>)
           bs uk ep w = scheduleBackupTask s bs uk ep w"
proof -
  have b: "sched_backupCreate
             (s\<lparr> json_Marshal := jm, CreatePipeline := cp, CreateStage := cs, CreateTask := ct \<rparr>)
             bs uk ep = sched_backupCreate s bs uk ep"
    by (simp add: sched_backupCreate_def)
  show ?thesis
    using assms by (simp add: scheduleBackupTask_def b)
qed

theorem conflict_short_circuit_witness:
  "CreateBackup mem_runner (sched_backupCreate mem_runner resolved42 ''442800'' 443820) store_done42
     = (Inl (Error ECONFLICT ''backup exists''), store_done42) \<and>
   ErrorCode (Error ECONFLICT ''backup exists'') = ECONFLICT \<and>
   scheduleBackupTask mem_runner resolved42 ''442800'' 443820 store_done42 = (None, store_done42) \<and>
   CreateBackup mem_runner (sched_backupCreate mem_runner resolved42 ''442800'' 443820)
     store_backup_fails = (Inl disk_full, store_backup_fails) \<and>
   ErrorCode disk_full \<noteq> ECONFLICT \<and>
   scheduleBackupTask mem_runner resolved42 ''442800'' 443820 store_backup_fails
     = (Some (FailedToCreateBackup disk_full), store_backup_fails)"
proof -
  have h1: "CreateBackup mem_runner (sched_backupCreate mem_runner resolved42 ''442800'' 443820)
      store_done42 = (Inl (Error ECONFLICT ''backup exists''), store_done42)"
    by (simp add: mem_runner_sel sched_backupCreate42 mem_CreateBackup_store_done42)
  have c1: "ErrorCode (Error ECONFLICT ''backup exists'') = ECONFLICT" by simp
  have h2: "CreateBackup mem_runner (sched_backupCreate mem_runner resolved42 ''442800'' 443820)
      store_backup_fails = (Inl disk_full, store_backup_fails)"
    by (simp add: mem_runner_sel sched_backupCreate42 mem_CreateBackup_store_backup_fails)
  have c2: "ErrorCode disk_full \<noteq> ECONFLICT" by (simp add: disk_full_def)
  from conflict_short_circuit [OF h1] c1
  have r1: "scheduleBackupTask mem_runner resolved42 ''442800'' 443820 store_done42
      = (None, store_done42)" by blast
  from conflict_short_circuit [OF h2] c2
  have r2: "scheduleBackupTask mem_runner resolved42 ''442800'' 443820 store_backup_fails
     = (Some (FailedToCreateBackup disk_full), store_backup_fails)" by blast
  from h1 c1 r1 h2 c2 r2 show ?thesis by blast
qed

text \<open>
  C7. After a successful \<^verbatim>\<open>CreateBackup\<close> (and a marshalled payload), a failure of
  \<^verbatim>\<open>CreatePipeline\<close>, \<^verbatim>\<open>CreateStage\<close> or \<^verbatim>\<open>CreateTask\<close> is returned as an error, and
  the world the attempt leaves is the one the failing call left: no later creation step
  runs (the services of the later steps make no difference to the outcome), and nothing
  is undone. For every observation of the world that the Pipeline, Stage and Task
  services leave alone, such as the stored backups, the attempt leaves it as it was
  right after \<^verbatim>\<open>CreateBackup\<close>.
\<close>

theorem partial_failure_keeps_backup:
  assumes "CreateBackup s (sched_backupCreate s bs uk ep) w = (Inr backup, w1)"
    and "json_Marshal s \<lparr> BackupID = Backup.ID backup \<rparr> = Inr bytes"
  shows
   "(CreatePipeline s (sched_pipelineCreate (sched_key bs uk) (sched_backupCreate s bs uk ep)) w1
       = (Inl e, w2) \<longrightarrow>
     scheduleBackupTask s bs uk ep w = (Some (FailedToCreatePipeline e), w2) \<and>
     scheduleBackupTask (s\<lparr> CreateStage := cs, CreateTask := ct \<rparr>) bs uk ep w
       = (Some (FailedToCreatePipeline e), w2)) \<and>
    (CreatePipeline s (sched_pipelineCreate (sched_key bs uk) (sched_backupCreate s bs uk ep)) w1
       = (Inr p, w2) \<and>
     CreateStage s (sched_stageCreate (sched_key bs uk) bs (sched_backupCreate s bs uk ep) p) w2
       = (Inl e, w3) \<longrightarrow>
     scheduleBackupTask s bs uk ep w = (Some (FailedToCreateStage e), w3) \<and>
     scheduleBackupTask (s\<lparr> CreateTask := ct \<rparr>) bs uk ep w = (Some (FailedToCreateStage e), w3)) \<and>
    (CreatePipeline s (sched_pipelineCreate (sched_key bs uk) (sched_backupCreate s bs uk ep)) w1
       = (Inr p, w2) \<and>
     CreateStage s (sched_stageCreate (sched_key bs uk) bs (sched_backupCreate s bs uk ep) p) w2
       = (Inr st, w3) \<and>
     CreateTask s (sched_taskCreate (sched_key bs uk) bs (sched_backupCreate s bs uk ep) p st bytes) w3
       = (Inl e, w4) \<longrightarrow>
     scheduleBackupTask s bs uk ep w = (Some (FailedToCreateTask e), w4)) \<and>
    ((\<forall>c x. obs (snd (CreatePipeline s c x)) = obs x) \<and>
     (\<forall>c x. obs (snd (CreateStage s c x)) = obs x) \<and>
     (\<forall>c x. obs (snd (CreateTask s c x)) = obs x) \<longrightarrow>
     obs (snd (scheduleBackupTask s bs uk ep w)) = obs w1)"
proof (intro conjI impI)
  assume "CreatePipeline s (sched_pipelineCreate (sched_key bs uk) (sched_backupCreate s bs uk ep)) w1
       = (Inl e, w2)"
  with assms show "scheduleBackupTask s bs uk ep w = (Some (FailedToCreatePipeline e), w2)"
    by (simp add: scheduleBackupTask_def)
next
  assume a: "CreatePipeline s (sched_pipelineCreate (sched_key bs uk) (sched_backupCreate s bs uk ep)) w1
       = (Inl e, w2)"
  have "sched_backupCreate (s\<lparr> CreateStage := cs, CreateTask := ct \<rparr>) bs uk ep
          = sched_backupCreate s bs uk ep"
    by (simp add: sched_backupCreate_def)
  with assms a show "scheduleBackupTask (s\<lparr> CreateStage := cs, CreateTask := ct \<rparr>) bs uk ep w
       = (Some (FailedToCreatePipeline e), w2)"
    by (simp add: scheduleBackupTask_def)
next
  assume "CreatePipeline s (sched_pipelineCreate (sched_key bs uk) (sched_backupCreate s bs uk ep)) w1
       = (Inr p, w2) \<and>
     CreateStage s (sched_stageCreate (sched_key bs uk) bs (sched_backupCreate s bs uk ep) p) w2
       = (Inl e, w3)"
  with assms show "scheduleBackupTask s bs uk ep w = (Some (FailedToCreateStage e), w3)"
    by (simp add: scheduleBackupTask_def)
next
  assume a: "CreatePipeline s (sched_pipelineCreate (sched_key bs uk) (sched_backupCreate s bs uk ep)) w1
       = (Inr p, w2) \<and>
     CreateStage s (sched_stageCreate (sched_key bs uk) bs (sched_backupCreate s bs uk ep) p) w2
       = (Inl e, w3)"
  have "sched_backupCreate (s\<lparr> CreateTask := ct \<rparr>) bs uk ep = sched_backupCreate s bs uk ep"
    by (simp add: sched_backupCreate_def)
  with assms a show "scheduleBackupTask (s\<lparr> CreateTask := ct \<rparr>) bs uk ep w
       = (Some (FailedToCreateStage e), w3)"
    by (simp add: scheduleBackupTask_def)
next
  assume "CreatePipeline s (sched_pipelineCreate (sched_key bs uk) (sched_backupCreate s bs uk ep)) w1
       = (Inr p, w2) \<and>
     CreateStage s (sched_stageCreate (sched_key bs uk) bs (sched_backupCreate s bs uk ep) p) w2
       = (Inr st, w3) \<and>
     CreateTask s (sched_taskCreate (sched_key bs uk) bs (sched_backupCreate s bs uk ep) p st bytes) w3
       = (Inl e, w4)"
  with assms show "scheduleBackupTask s bs uk ep w = (Some (FailedToCreateTask e), w4)"
    by (simp add: scheduleBackupTask_def)
next
  assume f: "(\<forall>c x. obs (snd (CreatePipeline s c x)) = obs x) \<and>
     (\<forall>c x. obs (snd (CreateStage s c x)) = obs x) \<and>
     (\<forall>c x. obs (snd (CreateTask s c x)) = obs x)"
  then have fp: "\<And>c x r y. CreatePipeline s c x = (r, y) \<Longrightarrow> obs y = obs x"
    and fs: "\<And>c x r y. CreateStage s c x = (r, y) \<Longrightarrow> obs y = obs x"
    and ft: "\<And>c x r y. CreateTask s c x = (r, y) \<Longrightarrow> obs y = obs x"
    by (metis snd_conv)+
  obtain rp x2 where cp: "CreatePipeline s
      (sched_pipelineCreate (sched_key bs uk) (sched_backupCreate s bs uk ep)) w1 = (rp, x2)"
    by (cases "CreatePipeline s
      (sched_pipelineCreate (sched_key bs uk) (sched_backupCreate s bs uk ep)) w1")
  have o2: "obs x2 = obs w1" using cp by (rule fp)
  show "obs (snd (scheduleBackupTask s bs uk ep w)) = obs w1"
  proof (cases rp)
    case (Inl err)
    with assms cp o2 show ?thesis by (simp add: scheduleBackupTask_def)
  next
    case (Inr createdPipeline)
    obtain rs x3 where cs: "CreateStage s
        (sched_stageCreate (sched_key bs uk) bs (sched_backupCreate s bs uk ep) createdPipeline) x2
        = (rs, x3)"
      by (cases "CreateStage s
        (sched_stageCreate (sched_key bs uk) bs (sched_backupCreate s bs uk ep) createdPipeline) x2")
    have o3: "obs x3 = obs w1" using fs [OF cs] o2 by simp
    show ?thesis
    proof (cases rs)
      case (Inl err)
      with assms cp Inr cs o3 show ?thesis by (simp add: scheduleBackupTask_def)
    next
      case stage: (Inr createdStage)
      obtain rt x4 where ct: "CreateTask s
          (sched_taskCreate (sched_key bs uk) bs (sched_backupCreate s bs uk ep)
             createdPipeline createdStage bytes) x3 = (rt, x4)"
        by (cases "CreateTask s
          (sched_taskCreate (sched_key bs uk) bs (sched_backupCreate s bs uk ep)
             createdPipeline createdStage bytes) x3")
      have o4: "obs x4 = obs w1" using ft [OF ct] o3 by simp
      from assms cp Inr cs stage ct o4 show ?thesis
        by (cases rt) (simp_all add: scheduleBackupTask_def)
    qed
  qed
qed


theorem partial_failure_keeps_backup_witness:
  "CreateBackup mem_runner (sched_backupCreate mem_runner resolved42 ''442800'' 443820)
     store_pipeline_fails
     = (Inr \<lparr> Backup.ID = 1 \<rparr>, store_pipeline_fails\<lparr> ms_backups := [backupCreate42] \<rparr>) \<and>
   json_Marshal mem_runner \<lparr> BackupID = Backup.ID \<lparr> Backup.ID = 1 \<rparr> \<rparr> = Inr payload_backup1 \<and>
   scheduleBackupTask mem_runner resolved42 ''442800'' 443820 store_pipeline_fails
     = (Some (FailedToCreatePipeline disk_full),
        store_pipeline_fails\<lparr> ms_backups := [backupCreate42] \<rparr>) \<and>
   scheduleBackupTask mem_runner resolved42 ''442800'' 443820 store_stage_fails
     = (Some (FailedToCreateStage disk_full),
        store_stage_fails\<lparr> ms_backups := [backupCreate42], ms_pipelines := [pipelineCreate42] \<rparr>) \<and>
   scheduleBackupTask mem_runner resolved42 ''442800'' 443820 store_task_fails
     = (Some (FailedToCreateTask disk_full),
        store_task_fails\<lparr> ms_backups := [backupCreate42], ms_pipelines := [pipelineCreate42],
                           ms_stages := [stageCreate42] \<rparr>) \<and>
   ms_backups (snd (scheduleBackupTask mem_runner resolved42 ''442800'' 443820 store_task_fails))
     = [backupCreate42]"
proof -
  let ?bc = "sched_backupCreate mem_runner resolved42 ''442800'' 443820"
  let ?key = "sched_key resolved42 ''442800''"
  have m: "json_Marshal mem_runner \<lparr> BackupID = Backup.ID \<lparr> Backup.ID = 1 \<rparr> \<rparr> = Inr payload_backup1"
    by (rule mem_json_Marshal_backup1)
  \<comment> \<open>the Pipeline cannot be created\<close>
  have cb1: "CreateBackup mem_runner ?bc store_pipeline_fails
     = (Inr \<lparr> Backup.ID = 1 \<rparr>, store_pipeline_fails\<lparr> ms_backups := [backupCreate42] \<rparr>)"
    by (simp add: mem_runner_sel sched_backupCreate42 mem_CreateBackup_fresh store_pipeline_fails_sel)
  have p1: "CreatePipeline mem_runner (sched_pipelineCreate ?key ?bc)
       (store_pipeline_fails\<lparr> ms_backups := [backupCreate42] \<rparr>)
     = (Inl disk_full, store_pipeline_fails\<lparr> ms_backups := [backupCreate42] \<rparr>)"
    by (simp add: mem_runner_sel mem_CreatePipeline_def store_pipeline_fails_sel)
  note t1 = partial_failure_keeps_backup [OF cb1 m]
  from t1 [THEN conjunct1, THEN mp, OF p1]
  have r1: "scheduleBackupTask mem_runner resolved42 ''442800'' 443820 store_pipeline_fails
     = (Some (FailedToCreatePipeline disk_full),
        store_pipeline_fails\<lparr> ms_backups := [backupCreate42] \<rparr>)" by (rule conjunct1)
  \<comment> \<open>the Stage cannot be created\<close>
  have cb2: "CreateBackup mem_runner ?bc store_stage_fails
     = (Inr \<lparr> Backup.ID = 1 \<rparr>, store_stage_fails\<lparr> ms_backups := [backupCreate42] \<rparr>)"
    by (simp add: mem_runner_sel sched_backupCreate42 mem_CreateBackup_fresh store_stage_fails_sel)
  have p2: "CreatePipeline mem_runner (sched_pipelineCreate ?key ?bc)
       (store_stage_fails\<lparr> ms_backups := [backupCreate42] \<rparr>)
     = (Inr \<lparr> Pipeline.ID = 1 \<rparr>,
        store_stage_fails\<lparr> ms_backups := [backupCreate42], ms_pipelines := [pipelineCreate42] \<rparr>)"
    by (simp add: mem_runner_sel mem_CreatePipeline_fresh store_stage_fails_sel sched_key42
        sched_backupCreate42 sched_pipelineCreate42)
  have s2: "CreateStage mem_runner (sched_stageCreate ?key resolved42 ?bc \<lparr> Pipeline.ID = 1 \<rparr>)
       (store_stage_fails\<lparr> ms_backups := [backupCreate42], ms_pipelines := [pipelineCreate42] \<rparr>)
     = (Inl disk_full,
        store_stage_fails\<lparr> ms_backups := [backupCreate42], ms_pipelines := [pipelineCreate42] \<rparr>)"
    by (simp add: mem_runner_sel mem_CreateStage_def store_stage_fails_sel)
  note t2 = partial_failure_keeps_backup [OF cb2 m]
  from t2 [THEN conjunct2, THEN conjunct1, THEN mp, OF conjI, OF p2 s2]
  have r2: "scheduleBackupTask mem_runner resolved42 ''442800'' 443820 store_stage_fails
     = (Some (FailedToCreateStage disk_full),
        store_stage_fails\<lparr> ms_backups := [backupCreate42], ms_pipelines := [pipelineCreate42] \<rparr>)"
    by (rule conjunct1)
  \<comment> \<open>the Task cannot be created\<close>
  have cb3: "CreateBackup mem_runner ?bc store_task_fails
     = (Inr \<lparr> Backup.ID = 1 \<rparr>, store_task_fails\<lparr> ms_backups := [backupCreate42] \<rparr>)"
    by (simp add: mem_runner_sel sched_backupCreate42 mem_CreateBackup_fresh store_task_fails_sel)
  have p3: "CreatePipeline mem_runner (sched_pipelineCreate ?key ?bc)
       (store_task_fails\<lparr> ms_backups := [backupCreate42] \<rparr>)
     = (Inr \<lparr> Pipeline.ID = 1 \<rparr>,
        store_task_fails\<lparr> ms_backups := [backupCreate42], ms_pipelines := [pipelineCreate42] \<rparr>)"
    by (simp add: mem_runner_sel mem_CreatePipeline_fresh store_task_fails_sel sched_key42
        sched_backupCreate42 sched_pipelineCreate42)
  have s3: "CreateStage mem_runner (sched_stageCreate ?key resolved42 ?bc \<lparr> Pipeline.ID = 1 \<rparr>)
       (store_task_fails\<lparr> ms_backups := [backupCreate42], ms_pipelines := [pipelineCreate42] \<rparr>)
     = (Inr \<lparr> Stage.ID = 1 \<rparr>,
        store_task_fails\<lparr> ms_backups := [backupCreate42], ms_pipelines := [pipelineCreate42],
                           ms_stages := [stageCreate42] \<rparr>)"
    by (simp add: mem_runner_sel mem_CreateStage_fresh store_task_fails_sel sched_key42
        sched_backupCreate42 sched_stageCreate42)
  have k3: "CreateTask mem_runner
       (sched_taskCreate ?key resolved42 ?bc \<lparr> Pipeline.ID = 1 \<rparr> \<lparr> Stage.ID = 1 \<rparr> payload_backup1)
       (store_task_fails\<lparr> ms_backups := [backupCreate42], ms_pipelines := [pipelineCreate42],
                           ms_stages := [stageCreate42] \<rparr>)
     = (Inl disk_full,
        store_task_fails\<lparr> ms_backups := [backupCreate42], ms_pipelines := [pipelineCreate42],
                           ms_stages := [stageCreate42] \<rparr>)"
    by (simp add: mem_runner_sel mem_CreateTask_def store_task_fails_sel)
  note t3 = partial_failure_keeps_backup [OF cb3 m]
  from t3 [THEN conjunct2, THEN conjunct2, THEN conjunct1, THEN mp, OF conjI, OF p3 conjI,
      OF s3 k3]
  have r3: "scheduleBackupTask mem_runner resolved42 ''442800'' 443820 store_task_fails
     = (Some (FailedToCreateTask disk_full),
        store_task_fails\<lparr> ms_backups := [backupCreate42], ms_pipelines := [pipelineCreate42],
                           ms_stages := [stageCreate42] \<rparr>)" .
  have frame: "(\<forall>c x. ms_backups (snd (CreatePipeline mem_runner c x)) = ms_backups x) \<and>
     (\<forall>c x. ms_backups (snd (CreateStage mem_runner c x)) = ms_backups x) \<and>
     (\<forall>c x. ms_backups (snd (CreateTask mem_runner c x)) = ms_backups x)"
    by (simp add: mem_runner_sel mem_frame_backups)
  from t3 [THEN conjunct2, THEN conjunct2, THEN conjunct2, THEN mp, OF frame]
  have r4: "ms_backups (snd (scheduleBackupTask mem_runner resolved42 ''442800'' 443820 store_task_fails))
     = [backupCreate42]" by simp
  from cb1 m r1 r2 r3 r4 show ?thesis by (intro conjI)
qed

text \<open>
  C8. An attempt that has created its Backup, marshalled the payload and created its
  Pipeline and Stage ends with one call of \<^verbatim>\<open>CreateTask\<close>, and returns nil or the
  error of that call. The Task it asks for is named after the key, has type
  database-backup and status pending, refers to the instance and the id of the
  database, to the Pipeline and the Stage just created (the Stage was created under
  that Pipeline), is created by the system identity, and its payload is the JSON
  serialisation of the payload struct that holds the id of the created Backup.
\<close>

theorem task_of_attempt:
  assumes "CreateBackup s (sched_backupCreate s bs uk ep) w = (Inr backup, w1)"
    and "json_Marshal s \<lparr> BackupID = Backup.ID backup \<rparr> = Inr bytes"
    and "CreatePipeline s (sched_pipelineCreate (sched_key bs uk) (sched_backupCreate s bs uk ep)) w1
           = (Inr createdPipeline, w2)"
    and "CreateStage s
           (sched_stageCreate (sched_key bs uk) bs (sched_backupCreate s bs uk ep) createdPipeline) w2
           = (Inr createdStage, w3)"
  shows "scheduleBackupTask s bs uk ep w
           = (case CreateTask s
                     \<lparr> TaskCreate.Name = sched_key bs uk,
                       TaskCreate.PipelineId = Pipeline.ID createdPipeline,
                       StageId = Stage.ID createdStage,
                       TaskCreate.InstanceId = Database.InstanceId (Database bs),
                       TaskCreate.DatabaseId = Some (Database.ID (Database bs)),
                       TaskCreate.Status = TaskPending,
                       TaskCreate.Type = TaskDatabaseBackup,
                       Payload = bytes,
                       TaskCreate.CreatorId = SYSTEM_BOT_ID s \<rparr> w3 of
                (Inl err, w4) \<Rightarrow> (Some (FailedToCreateTask err), w4)
              | (Inr createdTask, w4) \<Rightarrow> (None, w4)) \<and>
         StageCreate.PipelineId
           (sched_stageCreate (sched_key bs uk) bs (sched_backupCreate s bs uk ep) createdPipeline)
           = Pipeline.ID createdPipeline"
proof -
  have tc: "sched_taskCreate (sched_key bs uk) bs (sched_backupCreate s bs uk ep)
              createdPipeline createdStage bytes
            = \<lparr> TaskCreate.Name = sched_key bs uk,
                TaskCreate.PipelineId = Pipeline.ID createdPipeline,
                StageId = Stage.ID createdStage,
                TaskCreate.InstanceId = Database.InstanceId (Database bs),
                TaskCreate.DatabaseId = Some (Database.ID (Database bs)),
                TaskCreate.Status = TaskPending,
                TaskCreate.Type = TaskDatabaseBackup,
                Payload = bytes,
                TaskCreate.CreatorId = SYSTEM_BOT_ID s \<rparr>"
    by (simp add: sched_taskCreate_def sched_backupCreate_def)
  from assms have "scheduleBackupTask s bs uk ep w
      = (case CreateTask s (sched_taskCreate (sched_key bs uk) bs (sched_backupCreate s bs uk ep)
                              createdPipeline createdStage bytes) w3 of
           (Inl err, w4) \<Rightarrow> (Some (FailedToCreateTask err), w4)
         | (Inr createdTask, w4) \<Rightarrow> (None, w4))"
    by (simp add: scheduleBackupTask_def)
  then show ?thesis by (simp add: tc sched_stageCreate_def)
qed

theorem task_of_attempt_witness:
  "CreateBackup mem_runner (sched_backupCreate mem_runner resolved42 ''442800'' 443820) store0
     = (Inr \<lparr> Backup.ID = 1 \<rparr>, store0\<lparr> ms_backups := [backupCreate42] \<rparr>) \<and>
   json_Marshal mem_runner \<lparr> BackupID = Backup.ID \<lparr> Backup.ID = 1 \<rparr> \<rparr> = Inr payload_backup1 \<and>
   CreatePipeline mem_runner
       (sched_pipelineCreate (sched_key resolved42 ''442800'')
          (sched_backupCreate mem_runner resolved42 ''442800'' 443820))
       (store0\<lparr> ms_backups := [backupCreate42] \<rparr>)
     = (Inr \<lparr> Pipeline.ID = 1 \<rparr>,
        store0\<lparr> ms_backups := [backupCreate42], ms_pipelines := [pipelineCreate42] \<rparr>) \<and>
   CreateStage mem_runner
       (sched_stageCreate (sched_key resolved42 ''442800'') resolved42
          (sched_backupCreate mem_runner resolved42 ''442800'' 443820) \<lparr> Pipeline.ID = 1 \<rparr>)
       (store0\<lparr> ms_backups := [backupCreate42], ms_pipelines := [pipelineCreate42] \<rparr>)
     = (Inr \<lparr> Stage.ID = 1 \<rparr>,
        store0\<lparr> ms_backups := [backupCreate42], ms_pipelines := [pipelineCreate42],
                 ms_stages := [stageCreate42] \<rparr>) \<and>
   scheduleBackupTask mem_runner resolved42 ''442800'' 443820 store0 = (None, store_done42) \<and>
   ms_tasks store_done42
     = [\<lparr> TaskCreate.Name = ''auto-backup-442800-42'', TaskCreate.PipelineId = 1, StageId = 1,
          TaskCreate.InstanceId = 5, TaskCreate.DatabaseId = Some 42, TaskCreate.Status = TaskPending,
          TaskCreate.Type = TaskDatabaseBackup, Payload = payload_backup1,
          TaskCreate.CreatorId = 1 \<rparr>]"
proof -
  let ?bc = "sched_backupCreate mem_runner resolved42 ''442800'' 443820"
  let ?key = "sched_key resolved42 ''442800''"
  have cb: "CreateBackup mem_runner ?bc store0
     = (Inr \<lparr> Backup.ID = 1 \<rparr>, store0\<lparr> ms_backups := [backupCreate42] \<rparr>)"
    by (simp add: mem_runner_sel sched_backupCreate42 mem_CreateBackup_store0)
  have m: "json_Marshal mem_runner \<lparr> BackupID = Backup.ID \<lparr> Backup.ID = 1 \<rparr> \<rparr> = Inr payload_backup1"
    by (rule mem_json_Marshal_backup1)
  have p: "CreatePipeline mem_runner (sched_pipelineCreate ?key ?bc)
       (store0\<lparr> ms_backups := [backupCreate42] \<rparr>)
     = (Inr \<lparr> Pipeline.ID = 1 \<rparr>,
        store0\<lparr> ms_backups := [backupCreate42], ms_pipelines := [pipelineCreate42] \<rparr>)"
    by (simp add: mem_runner_sel mem_CreatePipeline_fresh store0_sel sched_key42
        sched_backupCreate42 sched_pipelineCreate42)
  have st: "CreateStage mem_runner (sched_stageCreate ?key resolved42 ?bc \<lparr> Pipeline.ID = 1 \<rparr>)
       (store0\<lparr> ms_backups := [backupCreate42], ms_pipelines := [pipelineCreate42] \<rparr>)
     = (Inr \<lparr> Stage.ID = 1 \<rparr>,
        store0\<lparr> ms_backups := [backupCreate42], ms_pipelines := [pipelineCreate42],
                 ms_stages := [stageCreate42] \<rparr>)"
    by (simp add: mem_runner_sel mem_CreateStage_fresh store0_sel sched_key42
        sched_backupCreate42 sched_stageCreate42)
  from task_of_attempt [OF cb m p st]
  have "scheduleBackupTask mem_runner resolved42 ''442800'' 443820 store0
      = (case CreateTask mem_runner
                     \<lparr> TaskCreate.Name = sched_key resolved42 ''442800'',
                       TaskCreate.PipelineId = Pipeline.ID \<lparr> Pipeline.ID = 1 \<rparr>,
                       StageId = Stage.ID \<lparr> Stage.ID = 1 \<rparr>,
                       TaskCreate.InstanceId = Database.InstanceId (Database resolved42),
                       TaskCreate.DatabaseId = Some (Database.ID (Database resolved42)),
                       TaskCreate.Status = TaskPending,
                       TaskCreate.Type = TaskDatabaseBackup,
                       Payload = payload_backup1,
                       TaskCreate.CreatorId = SYSTEM_BOT_ID mem_runner \<rparr>
                 (store0\<lparr> ms_backups := [backupCreate42], ms_pipelines := [pipelineCreate42],
                           ms_stages := [stageCreate42] \<rparr>) of
                (Inl err, w4) \<Rightarrow> (Some (FailedToCreateTask err), w4)
              | (Inr createdTask, w4) \<Rightarrow> (None, w4))"
    by (rule conjunct1)
  then have r: "scheduleBackupTask mem_runner resolved42 ''442800'' 443820 store0 = (None, store_done42)"
    by (simp add: mem_runner_sel mem_CreateTask_fresh store0_sel sched_key42 resolved42_sel
        store_done42_def taskCreate42_def)
  have t: "ms_tasks store_done42
     = [\<lparr> TaskCreate.Name = ''auto-backup-442800-42'', TaskCreate.PipelineId = 1, StageId = 1,
          TaskCreate.InstanceId = 5, TaskCreate.DatabaseId = Some 42, TaskCreate.Status = TaskPending,
          TaskCreate.Type = TaskDatabaseBackup, Payload = payload_backup1,
          TaskCreate.CreatorId = 1 \<rparr>]"
    by (simp add: store_done42_def taskCreate42_def key42_def)
  from cb m p st r t show ?thesis by (intro conjI)
qed

text \<open>
  C6. In the range loop of a tick, a setting whose database cannot be resolved
  (\<^verbatim>\<open>ComposeDatabaseByFind\<close> returns an error) is logged and skipped, and the loop goes
  on: with a resolver that leaves the world alone, the tick launches an attempt for
  exactly the matched settings whose own resolution succeeds, in order, and logs one
  line for each of the others. In general, where the settings before the failing one
  are processed without a panic, the loop over the whole list does what it does on the
  settings before, then logs the failure, then does what it does on the settings after,
  from the world the failed lookup left.
\<close>

theorem resolution_failure_is_isolated:
  assumes "time_Now s v = (now1, v1)" and "time_Now s v1 = (now2, v2)"
    and "FindBackupSettingsMatch s (run_match (run_t now1)) v2 = (Returns (list, None), v3)"
    and "\<forall>f. ComposeDatabaseByFind s f v3 = (Returns (resolve f), v3)"
  shows
   "Run_tick s v =
      ((List.map_filter (log_of resolve) list,
        List.map_filter (launch_of resolve (run_uniqueKey (run_t now1)) (run_epoch now2)) list), v3) \<and>
    (b \<in> set list \<and>
       resolve \<lparr> DatabaseFind.ID = Some (BackupSetting.DatabaseId b) \<rparr> = Inr database \<longrightarrow>
       (b\<lparr> Database := database \<rparr>, run_uniqueKey (run_t now1), run_epoch now2)
         \<in> set (snd (fst (Run_tick s v)))) \<and>
    (b \<in> set list \<and>
       resolve \<lparr> DatabaseFind.ID = Some (BackupSetting.DatabaseId b) \<rparr> = Inl e \<longrightarrow>
       FailedToGetDatabase (BackupSetting.ID b) (BackupSetting.DatabaseId b) e
         \<in> set (fst (fst (Run_tick s v)))) \<and>
    (range_list s uk ep before w = (r1, w1) \<and> panicked r1 = None \<and>
       ComposeDatabaseByFind s \<lparr> DatabaseFind.ID = Some (BackupSetting.DatabaseId bs) \<rparr> w1
         = (Returns (Inl err), w2) \<and>
       range_list s uk ep after w2 = (r2, w3) \<longrightarrow>
       range_list s uk ep (before @ bs # after) w
         = (\<lparr> panicked = panicked r2,
              logged = logged r1 @ FailedToGetDatabase (BackupSetting.ID bs)
                                    (BackupSetting.DatabaseId bs) err # logged r2,
              launched = launched r1 @ launched r2 \<rparr>, w3))"
proof -
  have t: "Run_tick s v =
      ((List.map_filter (log_of resolve) list,
        List.map_filter (launch_of resolve (run_uniqueKey (run_t now1)) (run_epoch now2)) list), v3)"
    using Run_tick_pure [OF assms] by simp
  show ?thesis
  proof (intro conjI impI)
    show "Run_tick s v =
      ((List.map_filter (log_of resolve) list,
        List.map_filter (launch_of resolve (run_uniqueKey (run_t now1)) (run_epoch now2)) list), v3)"
      by (rule t)
  next
    assume a: "b \<in> set list \<and>
       resolve \<lparr> DatabaseFind.ID = Some (BackupSetting.DatabaseId b) \<rparr> = Inr database"
    then have "launch_of resolve (run_uniqueKey (run_t now1)) (run_epoch now2) b
        = Some (b\<lparr> Database := database \<rparr>, run_uniqueKey (run_t now1), run_epoch now2)"
      by (simp add: launch_of_def)
    with a have "(b\<lparr> Database := database \<rparr>, run_uniqueKey (run_t now1), run_epoch now2)
        \<in> set (List.map_filter (launch_of resolve (run_uniqueKey (run_t now1)) (run_epoch now2)) list)"
      by (blast intro: map_filter_member)
    then show "(b\<lparr> Database := database \<rparr>, run_uniqueKey (run_t now1), run_epoch now2)
         \<in> set (snd (fst (Run_tick s v)))"
      by (simp add: t)
  next
    assume a: "b \<in> set list \<and>
       resolve \<lparr> DatabaseFind.ID = Some (BackupSetting.DatabaseId b) \<rparr> = Inl e"
    then have "log_of resolve b
        = Some (FailedToGetDatabase (BackupSetting.ID b) (BackupSetting.DatabaseId b) e)"
      by (simp add: log_of_def)
    with a have "FailedToGetDatabase (BackupSetting.ID b) (BackupSetting.DatabaseId b) e
        \<in> set (List.map_filter (log_of resolve) list)"
      by (blast intro: map_filter_member)
    then show "FailedToGetDatabase (BackupSetting.ID b) (BackupSetting.DatabaseId b) e
         \<in> set (fst (fst (Run_tick s v)))"
      by (simp add: t)
  next
    assume a: "range_list s uk ep before w = (r1, w1) \<and> panicked r1 = None \<and>
       ComposeDatabaseByFind s \<lparr> DatabaseFind.ID = Some (BackupSetting.DatabaseId bs) \<rparr> w1
         = (Returns (Inl err), w2) \<and>
       range_list s uk ep after w2 = (r2, w3)"
    then have "range_list s uk ep (bs # after) w1
        = (r2\<lparr> logged := FailedToGetDatabase (BackupSetting.ID bs)
                               (BackupSetting.DatabaseId bs) err # logged r2 \<rparr>, w3)"
      by simp
    with a show "range_list s uk ep (before @ bs # after) w
         = (\<lparr> panicked = panicked r2,
              logged = logged r1 @ FailedToGetDatabase (BackupSetting.ID bs)
                                    (BackupSetting.DatabaseId bs) err # logged r2,
              launched = launched r1 @ launched r2 \<rparr>, w3)"
      by (simp add: range_list_append del: range_list.simps)
  qed
qed

theorem resolution_failure_is_isolated_witness:
  "time_Now mem_runner store0 = (tuesday_0317, store0) \<and>
   FindBackupSettingsMatch mem_runner (run_match (run_t tuesday_0317)) store0
     = (Returns ([setting99, setting42, setting7], None), store0) \<and>
   (\<forall>f. ComposeDatabaseByFind mem_runner f store0 = (Returns (mem_resolve store0 f), store0)) \<and>
   mem_resolve store0 \<lparr> DatabaseFind.ID = Some (BackupSetting.DatabaseId setting99) \<rparr>
     = Inl (Error ENOTFOUND ''database not found'') \<and>
   mem_resolve store0 \<lparr> DatabaseFind.ID = Some (BackupSetting.DatabaseId setting42) \<rparr> = Inr db42 \<and>
   mem_resolve store0 \<lparr> DatabaseFind.ID = Some (BackupSetting.DatabaseId setting7) \<rparr> = Inr db7 \<and>
   FailedToGetDatabase 3 99 (Error ENOTFOUND ''database not found'')
     \<in> set (fst (fst (Run_tick mem_runner store0))) \<and>
   (resolved42, ''442800'', 443820) \<in> set (snd (fst (Run_tick mem_runner store0))) \<and>
   (resolved7, ''442800'', 443820) \<in> set (snd (fst (Run_tick mem_runner store0))) \<and>
   range_list mem_runner ''442800'' 443820 ([setting42] @ setting99 # [setting7]) store0
     = (\<lparr> panicked = None,
          logged = [FailedToGetDatabase 3 99 (Error ENOTFOUND ''database not found'')],
          launched = [(resolved42, ''442800'', 443820), (resolved7, ''442800'', 443820)] \<rparr>, store0)"
proof -
  have n: "time_Now mem_runner store0 = (tuesday_0317, store0)"
    by (simp add: mem_runner_sel ms_now_store0)
  have f: "FindBackupSettingsMatch mem_runner (run_match (run_t tuesday_0317)) store0
     = (Returns ([setting99, setting42, setting7], None), store0)"
    by (simp add: mem_runner_sel run_match_tuesday_0317 find_store0)
  have c: "\<forall>f. ComposeDatabaseByFind mem_runner f store0 = (Returns (mem_resolve store0 f), store0)"
    by (simp add: mem_runner_sel mem_ComposeDatabaseByFind_def)
  have r99: "mem_resolve store0 \<lparr> DatabaseFind.ID = Some (BackupSetting.DatabaseId setting99) \<rparr>
     = Inl (Error ENOTFOUND ''database not found'')"
    and r42: "mem_resolve store0 \<lparr> DatabaseFind.ID = Some (BackupSetting.DatabaseId setting42) \<rparr>
     = Inr db42"
    and r7: "mem_resolve store0 \<lparr> DatabaseFind.ID = Some (BackupSetting.DatabaseId setting7) \<rparr>
     = Inr db7"
    by (simp_all add: setting_ids resolve_store0)
  note t = resolution_failure_is_isolated [OF n n f c]
  have m99: "setting99 \<in> set [setting99, setting42, setting7]"
    and m42: "setting42 \<in> set [setting99, setting42, setting7]"
    and m7: "setting7 \<in> set [setting99, setting42, setting7]" by simp_all
  from t [THEN conjunct2, THEN conjunct2, THEN conjunct1, THEN mp, OF conjI, OF m99 r99]
  have l99: "FailedToGetDatabase 3 99 (Error ENOTFOUND ''database not found'')
     \<in> set (fst (fst (Run_tick mem_runner store0)))"
    by (simp add: setting_ids)
  from t [THEN conjunct2, THEN conjunct1, THEN mp, OF conjI, OF m42 r42]
  have l42: "(resolved42, ''442800'', 443820) \<in> set (snd (fst (Run_tick mem_runner store0)))"
    by (simp add: resolved42_def run_uniqueKey_tuesday_0317 run_epoch_tuesday_0317)
  from t [THEN conjunct2, THEN conjunct1, THEN mp, OF conjI, OF m7 r7]
  have l7: "(resolved7, ''442800'', 443820) \<in> set (snd (fst (Run_tick mem_runner store0)))"
    by (simp add: resolved7_def run_uniqueKey_tuesday_0317 run_epoch_tuesday_0317)
  have b: "range_list mem_runner ''442800'' 443820 [setting42] store0
      = (\<lparr> panicked = None, logged = [], launched = [(resolved42, ''442800'', 443820)] \<rparr>, store0)"
    and a: "range_list mem_runner ''442800'' 443820 [setting7] store0
      = (\<lparr> panicked = None, logged = [], launched = [(resolved7, ''442800'', 443820)] \<rparr>, store0)"
    by (rule range_list_store0_single)+
  have p: "panicked \<lparr> panicked = None, logged = [],
                      launched = [(resolved42, ''442800'', 443820)] \<rparr> = None" by simp
  have c99: "ComposeDatabaseByFind mem_runner
               \<lparr> DatabaseFind.ID = Some (BackupSetting.DatabaseId setting99) \<rparr> store0
             = (Returns (Inl (Error ENOTFOUND ''database not found'')), store0)"
    by (simp add: mem_runner_sel setting_ids compose_store0)
  from t [THEN conjunct2, THEN conjunct2, THEN conjunct2, THEN mp, OF conjI, OF b conjI,
      OF p conjI, OF c99 a]
  have g: "range_list mem_runner ''442800'' 443820 ([setting42] @ setting99 # [setting7]) store0
     = (\<lparr> panicked = None,
          logged = [FailedToGetDatabase 3 99 (Error ENOTFOUND ''database not found'')],
          launched = [(resolved42, ''442800'', 443820), (resolved7, ''442800'', 443820)] \<rparr>, store0)"
    by (simp add: setting_ids del: range_list.simps)
  from n f c r99 r42 r7 l99 l42 l7 g show ?thesis by (intro conjI)
qed




text \<open>
  C5. A tick truncates its first reading of the clock to the start of the hour, in UTC:
  the bucket \<open>t\<close> is a whole number of hours since the epoch, at most one hour before
  the reading, and presented in UTC. The match it asks for carries the hour of day and
  the day of the week of the bucket. With the settings query as the spec has it, the
  settings the tick ranges over are exactly the stored settings whose hour and day of
  week equal those of the bucket, in their stored order; when there is none, the tick
  logs nothing and launches nothing.
\<close>

theorem match_resolver:
  assumes "time_Now s w = (now1, w1)" and "time_Now s w1 = (now2, w2)"
    and "FindBackupSettingsMatch s (run_match (run_t now1)) w2
           = (Returns (spec_FindBackupSettingsMatch all (run_match (run_t now1)), None), w3)"
  shows
   "time_Hour dvd unix_nano (run_t now1) \<and>
    unix_nano (run_t now1) \<le> unix_nano now1 \<and>
    unix_nano now1 < unix_nano (run_t now1) + time_Hour \<and>
    zone_offset (run_t now1) = 0 \<and>
    BackupSettingsMatch.Hour (run_match (run_t now1)) = utc_hour_index now1 mod 24 \<and>
    BackupSettingsMatch.DayOfWeek (run_match (run_t now1)) = (utc_hour_index now1 div 24 + 4) mod 7 \<and>
    spec_FindBackupSettingsMatch all (run_match (run_t now1))
      = filter (\<lambda>bs. BackupSetting.Hour bs = Time_Hour (run_t now1)
                    \<and> BackupSetting.DayOfWeek bs = Time_Weekday (run_t now1)) all \<and>
    (bs \<in> set (spec_FindBackupSettingsMatch all (run_match (run_t now1))) \<longleftrightarrow>
       bs \<in> set all \<and> BackupSetting.Hour bs = Time_Hour (run_t now1)
         \<and> BackupSetting.DayOfWeek bs = Time_Weekday (run_t now1)) \<and>
    Run_tick s w =
      (case range_list s (run_uniqueKey (run_t now1)) (run_epoch now2)
              (filter (\<lambda>bs. BackupSetting.Hour bs = Time_Hour (run_t now1)
                            \<and> BackupSetting.DayOfWeek bs = Time_Weekday (run_t now1)) all) w3 of
         (res, w4) \<Rightarrow>
           ((logged res @ (case panicked res of Some r \<Rightarrow> [PanicRecover r] | None \<Rightarrow> []),
             launched res), w4)) \<and>
    (filter (\<lambda>bs. BackupSetting.Hour bs = Time_Hour (run_t now1)
                  \<and> BackupSetting.DayOfWeek bs = Time_Weekday (run_t now1)) all = [] \<longrightarrow>
       Run_tick s w = (([], []), w3))"
proof -
  have f: "spec_FindBackupSettingsMatch all (run_match (run_t now1))
      = filter (\<lambda>bs. BackupSetting.Hour bs = Time_Hour (run_t now1)
                    \<and> BackupSetting.DayOfWeek bs = Time_Weekday (run_t now1)) all"
    by (simp add: spec_FindBackupSettingsMatch_def run_match_sel)
  have t: "Run_tick s w =
      (case range_list s (run_uniqueKey (run_t now1)) (run_epoch now2)
              (filter (\<lambda>bs. BackupSetting.Hour bs = Time_Hour (run_t now1)
                            \<and> BackupSetting.DayOfWeek bs = Time_Weekday (run_t now1)) all) w3 of
         (res, w4) \<Rightarrow>
           ((logged res @ (case panicked res of Some r \<Rightarrow> [PanicRecover r] | None \<Rightarrow> []),
             launched res), w4))"
    using Run_tick_no_error [OF assms] by (simp only: f)
  show ?thesis
  proof (intro conjI impI)
    show "time_Hour dvd unix_nano (run_t now1)" by (rule run_t_dvd)
    show "unix_nano (run_t now1) \<le> unix_nano now1" using run_t_bounds [of now1] by simp
    show "unix_nano now1 < unix_nano (run_t now1) + time_Hour" using run_t_bounds [of now1] by simp
    show "zone_offset (run_t now1) = 0" by (rule run_t_zone)
    show "BackupSettingsMatch.Hour (run_match (run_t now1)) = utc_hour_index now1 mod 24"
      by (simp add: run_match_sel run_t_Hour)
    show "BackupSettingsMatch.DayOfWeek (run_match (run_t now1)) = (utc_hour_index now1 div 24 + 4) mod 7"
      by (simp add: run_match_sel run_t_Weekday)
    show "spec_FindBackupSettingsMatch all (run_match (run_t now1))
      = filter (\<lambda>bs. BackupSetting.Hour bs = Time_Hour (run_t now1)
                    \<and> BackupSetting.DayOfWeek bs = Time_Weekday (run_t now1)) all"
      by (rule f)
    show "bs \<in> set (spec_FindBackupSettingsMatch all (run_match (run_t now1))) \<longleftrightarrow>
       bs \<in> set all \<and> BackupSetting.Hour bs = Time_Hour (run_t now1)
         \<and> BackupSetting.DayOfWeek bs = Time_Weekday (run_t now1)"
      by (simp add: spec_FindBackupSettingsMatch_set run_match_sel)
    show "Run_tick s w =
      (case range_list s (run_uniqueKey (run_t now1)) (run_epoch now2)
              (filter (\<lambda>bs. BackupSetting.Hour bs = Time_Hour (run_t now1)
                            \<and> BackupSetting.DayOfWeek bs = Time_Weekday (run_t now1)) all) w3 of
         (res, w4) \<Rightarrow>
           ((logged res @ (case panicked res of Some r \<Rightarrow> [PanicRecover r] | None \<Rightarrow> []),
             launched res), w4))"
      by (rule t)
  next
    assume "filter (\<lambda>bs. BackupSetting.Hour bs = Time_Hour (run_t now1)
                  \<and> BackupSetting.DayOfWeek bs = Time_Weekday (run_t now1)) all = []"
    with t show "Run_tick s w = (([], []), w3)" by simp
  qed
qed


theorem match_resolver_witness:
  "time_Now mem_runner store0 = (tuesday_0317, store0) \<and>
   FindBackupSettingsMatch mem_runner (run_match (run_t tuesday_0317)) store0
     = (Returns (spec_FindBackupSettingsMatch (ms_settings store0)
                   (run_match (run_t tuesday_0317)), None), store0) \<and>
   unix_nano tuesday_0317 = 443820000000000 \<and>
   unix_nano (run_t tuesday_0317) = 442800000000000 \<and>
   BackupSettingsMatch.Hour (run_match (run_t tuesday_0317)) = 3 \<and>
   BackupSettingsMatch.DayOfWeek (run_match (run_t tuesday_0317)) = 2 \<and>
   setting42 \<in> set (spec_FindBackupSettingsMatch (ms_settings store0)
                        (run_match (run_t tuesday_0317))) \<and>
   time_Now mem_runner store_0400 = (next_0400, store_0400) \<and>
   FindBackupSettingsMatch mem_runner (run_match (run_t next_0400)) store_0400
     = (Returns (spec_FindBackupSettingsMatch (ms_settings store_0400)
                   (run_match (run_t next_0400)), None), store_0400) \<and>
   BackupSettingsMatch.Hour (run_match (run_t next_0400)) = 4 \<and>
   Run_tick mem_runner store_0400 = (([], []), store_0400)"
proof -
  have n1: "time_Now mem_runner store0 = (tuesday_0317, store0)"
    by (simp add: mem_runner_sel ms_now_store0)
  have f1: "FindBackupSettingsMatch mem_runner (run_match (run_t tuesday_0317)) store0
     = (Returns (spec_FindBackupSettingsMatch (ms_settings store0)
                   (run_match (run_t tuesday_0317)), None), store0)"
    by (simp add: mem_runner_sel mem_FindBackupSettingsMatch_def store0_def)
  have u: "unix_nano tuesday_0317 = 443820000000000" by (simp add: tuesday_0317_def)
  note t1 = match_resolver [OF n1 n1 f1, of setting42]
  have t: "unix_nano (run_t tuesday_0317) = 442800000000000"
    by (simp add: run_t_tuesday_0317)
  from t1 have h: "BackupSettingsMatch.Hour (run_match (run_t tuesday_0317)) = 3"
    and d: "BackupSettingsMatch.DayOfWeek (run_match (run_t tuesday_0317)) = 2"
    by (simp_all add: hour_index_tuesday_0317)
  have "setting42 \<in> set (ms_settings store0)" by (simp add: store0_def)
  moreover have "BackupSetting.Hour setting42 = Time_Hour (run_t tuesday_0317)"
    and "BackupSetting.DayOfWeek setting42 = Time_Weekday (run_t tuesday_0317)"
    using h d by (simp_all add: run_match_sel setting42_def)
  ultimately have m: "setting42 \<in> set (spec_FindBackupSettingsMatch (ms_settings store0)
                        (run_match (run_t tuesday_0317)))"
    using t1 by blast
  have n2: "time_Now mem_runner store_0400 = (next_0400, store_0400)"
    by (simp add: mem_runner_sel store_0400_def)
  have f2: "FindBackupSettingsMatch mem_runner (run_match (run_t next_0400)) store_0400
     = (Returns (spec_FindBackupSettingsMatch (ms_settings store_0400)
                   (run_match (run_t next_0400)), None), store_0400)"
    by (simp add: mem_runner_sel mem_FindBackupSettingsMatch_def store_0400_def store0_def)
  note t2 = match_resolver [OF n2 n2 f2]
  have i: "utc_hour_index next_0400 = 124"
    by (simp add: utc_hour_index_def Time_Unix_def next_0400_def)
  from t2 have h2: "BackupSettingsMatch.Hour (run_match (run_t next_0400)) = 4"
    by (simp add: i)
  then have "Time_Hour (run_t next_0400) = 4" by (simp add: run_match_sel)
  then have e: "filter (\<lambda>bs. BackupSetting.Hour bs = Time_Hour (run_t next_0400)
                  \<and> BackupSetting.DayOfWeek bs = Time_Weekday (run_t next_0400))
             (ms_settings store_0400) = []"
    by (simp add: store_0400_def store0_def setting99_def setting42_def setting7_def)
  from t2 e have r: "Run_tick mem_runner store_0400 = (([], []), store_0400)" by blast
  from n1 f1 u t h d m n2 f2 h2 r show ?thesis by (intro conjI)
qed

text \<open>
  C10, as amended. When the transaction begins and \<^verbatim>\<open>findProjectList\<close> returns its
  list without an error (the query, the scan of every row and \<^verbatim>\<open>rows.Err\<close> succeed),
  the list holds the rows of the table that satisfy every conjunct of the filter.
  \<^verbatim>\<open>FindProject\<close> returns a not-found error when there is none. When there are several
  it does not return an error: it logs one warning and returns the first of them. When
  there is exactly one it returns it and logs nothing.
\<close>

theorem FindProject_none_or_several:
  assumes "BeginTx_err (db s) = None" and "findProjectList s fnd = Inr list"
  shows "list = filter (row_matches (db s) fnd) (project (db s)) \<and>
    (row_matches (db s) fnd p \<longleftrightarrow>
       (ProjectFind.ID fnd = None \<or> ProjectFind.ID fnd = Some (Project.ID p)) \<and>
       (ProjectFind.RowStatus fnd = None \<or> ProjectFind.RowStatus fnd = Some (Project.RowStatus p)) \<and>
       (ProjectFind.WorkspaceId fnd = None \<or> ProjectFind.WorkspaceId fnd = Some (Project.WorkspaceId p)) \<and>
       (PrincipalId fnd = None \<or>
          (\<exists>v. PrincipalId fnd = Some v \<and> (Project.ID p, v) \<in> set (project_member (db s))))) \<and>
    (list = [] \<longrightarrow>
       FindProject s fnd = (Inl (Error ENOTFOUND (''project not found: '' @ fmt_v_find s fnd)), [])) \<and>
    (list = first # second # others \<longrightarrow>
       FindProject s fnd
         = (Inr first,
            [''found mulitple projects: '' @ fmt_v_int (int (length list)) @ '', expect 1''])) \<and>
    (list = [first] \<longrightarrow> FindProject s fnd = (Inr first, []))"
  using assms
  by (simp add: FindProject_def findProjectList_Inr [OF assms(2), symmetric] row_matches_iff)

theorem FindProject_none_or_several_witness:
  "BeginTx_err (db project_service0) = None \<and>
   findProjectList project_service0 (find_workspace 2) = Inr [] \<and>
   FindProject project_service0 (find_workspace 2)
     = (Inl (Error ENOTFOUND ''project not found: &{...}''), []) \<and>
   findProjectList project_service0 (find_workspace 1) = Inr [project1, project2] \<and>
   FindProject project_service0 (find_workspace 1)
     = (Inr project1, [''found mulitple projects: 2, expect 1''])"
proof -
  have b: "BeginTx_err (db project_service0) = None" by (simp add: project_service0_sel)
  have l2: "findProjectList project_service0 (find_workspace 2) = Inr []"
    and l1: "findProjectList project_service0 (find_workspace 1) = Inr [project1, project2]"
    by (simp_all add: findProjectList_service0)
  from FindProject_none_or_several [OF b l2]
  have r2: "FindProject project_service0 (find_workspace 2)
     = (Inl (Error ENOTFOUND ''project not found: &{...}''), [])"
    by (simp add: project_service0_sel)
  from FindProject_none_or_several [OF b l1, of _ project1 project2 "[]"]
  have r1: "FindProject project_service0 (find_workspace 1)
     = (Inr project1, [''found mulitple projects: 2, expect 1''])"
    by (simp add: fmt_2)
  from b l2 r2 l1 r1 show ?thesis by (intro conjI)
qed

theorem FindProject_several_counterexample:
  "filter (row_matches (db project_service0) (find_workspace 1)) (project (db project_service0))
     = [project1, project2] \<and>
   FindProject project_service0 (find_workspace 1)
     = (Inr project1, [''found mulitple projects: 2, expect 1'']) \<and>
   \<not> isl (fst (FindProject project_service0 (find_workspace 1)))"
  by (simp add: project_service0_sel row_matches_workspace FindProject_service0)

end
